theory Spec2Isabelle
  imports Complex_Main "HOL-Library.Word"
begin

section \<open>JavaScript numbers, as far as the WAV validator uses them\<close>

text \<open>
  The validator computes the duration and the expected byte rate with JavaScript numbers
  (IEEE doubles). The model keeps the three exceptional values of a division apart from the
  finite results; a finite result is kept exact as a rational (rounding to the nearest double
  is not modelled, and no statement below depends on it).
\<close>

datatype js_number = Num rat | PosInfinity | NegInfinity | NaN

text \<open>\<^verbatim>\<open>a / b\<close> for finite \<open>a\<close> and finite \<open>b\<close> (here \<open>b\<close> is never \<open>-0\<close>).\<close>

definition js_div :: "rat \<Rightarrow> rat \<Rightarrow> js_number" where
  "js_div a b =
     (if b \<noteq> 0 then Num (a / b)
      else if a > 0 then PosInfinity
      else if a < 0 then NegInfinity
      else NaN)"

text \<open>\<^verbatim>\<open>Math.max(0, x)\<close>: a NaN argument gives NaN.\<close>

fun Math_max0 :: "js_number \<Rightarrow> js_number" where
  "Math_max0 (Num q) = Num (max 0 q)"
| "Math_max0 PosInfinity = PosInfinity"
| "Math_max0 NegInfinity = Num 0"
| "Math_max0 NaN = NaN"

text \<open>\<^verbatim>\<open>x > c\<close> and \<^verbatim>\<open>x >= c\<close> for a finite \<open>c\<close>: every comparison with NaN is false.\<close>

fun js_gt :: "js_number \<Rightarrow> rat \<Rightarrow> bool" where
  "js_gt (Num q) c = (q > c)"
| "js_gt PosInfinity c = True"
| "js_gt NegInfinity c = False"
| "js_gt NaN c = False"

fun js_ge :: "js_number \<Rightarrow> rat \<Rightarrow> bool" where
  "js_ge (Num q) c = (q \<ge> c)"
| "js_ge PosInfinity c = True"
| "js_ge NegInfinity c = False"
| "js_ge NaN c = False"

fun js_finite :: "js_number \<Rightarrow> bool" where
  "js_finite (Num q) = True"
| "js_finite PosInfinity = False"
| "js_finite NegInfinity = False"
| "js_finite NaN = False"


section \<open>The WAV validator (wavValidator.js)\<close>

subsection \<open>Constants: WAV_VALIDATION_CONFIG\<close>

type_synonym buffer = "8 word list"

definition RIFF_SIGNATURE :: buffer where
  "RIFF_SIGNATURE = [0x52, 0x49, 0x46, 0x46]"

definition WAVE_SIGNATURE :: buffer where
  "WAVE_SIGNATURE = [0x57, 0x41, 0x56, 0x45]"

definition FMT_SIGNATURE :: buffer where
  "FMT_SIGNATURE = [0x66, 0x6D, 0x74, 0x20]"

definition MIN_HEADER_SIZE :: nat where
  "MIN_HEADER_SIZE = 44"

definition MAX_FILE_SIZE :: nat where
  "MAX_FILE_SIZE = 50 * 1024 * 1024"

definition MIN_FILE_SIZE :: nat where
  "MIN_FILE_SIZE = 1000"

definition MAX_DURATION :: rat where
  "MAX_DURATION = 600"

definition preferredSampleRate :: nat where
  "preferredSampleRate = 16000"

definition preferredChannels :: nat where
  "preferredChannels = 1"

definition preferredBitDepth :: nat where
  "preferredBitDepth = 16"

datatype validation_level = Basic | Standard | Strict

record wav_validator =
  validationLevel :: validation_level
  autoFix :: bool

subsection \<open>Buffer reads\<close>

text \<open>
  \<^verbatim>\<open>buf.subarray(start, end)\<close> clamps to the buffer; \<^verbatim>\<open>readUInt16LE\<close> and
  \<^verbatim>\<open>readUInt32LE\<close> throw a RangeError when the read leaves the buffer (\<open>None\<close>).
\<close>

definition subarray :: "buffer \<Rightarrow> nat \<Rightarrow> nat \<Rightarrow> buffer" where
  "subarray b start stop = take (stop - start) (drop start b)"

definition readUInt16LE :: "buffer \<Rightarrow> nat \<Rightarrow> nat option" where
  "readUInt16LE b off =
     (if off + 2 \<le> length b
      then Some (unat (b ! off) + 256 * unat (b ! (off + 1)))
      else None)"

definition readUInt32LE :: "buffer \<Rightarrow> nat \<Rightarrow> nat option" where
  "readUInt32LE b off =
     (if off + 4 \<le> length b
      then Some (unat (b ! off) + 256 * unat (b ! (off + 1))
                 + 65536 * unat (b ! (off + 2)) + 16777216 * unat (b ! (off + 3)))
      else None)"

subsection \<open>Errors and results\<close>

text \<open>
  Every \<^verbatim>\<open>throw new Error(...)\<close> of the validator is a value. A message is kept as the
  template that produced it together with the numbers interpolated into it.
\<close>

datatype parse_failure =
    Invalid_RIFF_signature
  | Invalid_WAVE_signature
  | Fmt_chunk_not_found
  | Read_out_of_range

datatype issue =
    Unsupported_audio_format nat
  | Sample_rate_mismatch nat
  | Channel_count_mismatch nat
  | Bit_depth_mismatch nat
  | Audio_too_long js_number
  | Byte_rate_mismatch nat rat

datatype wav_error =
    WAV_file_too_small nat
  | WAV_file_too_large nat
  | Header_too_small
  | Header_parsing_failed parse_failure
  | Conversion_failed string
  | Could_not_be_corrected
  | Format_rejected "issue list"

text \<open>The outer \<^verbatim>\<open>catch\<close> of validateAndProcess rethrows every error wrapped once more.\<close>

datatype process_error = WAV_validation_failed wav_error

record header_info =
  fileSize :: nat
  audioFormat :: nat
  numChannels :: nat
  sampleRate :: nat
  byteRate :: nat
  blockAlign :: nat
  bitsPerSample :: nat
  fmtSize :: nat
  duration :: js_number

record validation_result =
  isValid :: bool
  errors :: "issue list"
  warnings :: "issue list"
  requiresFix :: bool

record process_metadata =
  headerInfo :: header_info
  wasProcessed :: bool
  originalSize :: nat
  finalSize :: nat

record process_result =
  result_isValid :: bool
  processedBuffer :: buffer
  metadata :: process_metadata

subsection \<open>_calculateDuration\<close>

definition calculateDuration :: "nat \<Rightarrow> nat \<Rightarrow> nat \<Rightarrow> nat \<Rightarrow> js_number" where
  "calculateDuration fileSize' sampleRate' channels bitDepth =
     (let dataSize = int fileSize' - int MIN_HEADER_SIZE;
          bytesPerSecond = of_nat sampleRate' * of_nat channels * (of_nat bitDepth / 8)
      in Math_max0 (js_div (of_int dataSize) bytesPerSecond))"

subsection \<open>_validateFileSize\<close>

definition validateFileSize :: "buffer \<Rightarrow> wav_error option" where
  "validateFileSize b =
     (if length b < MIN_FILE_SIZE then Some (WAV_file_too_small (length b))
      else if length b > MAX_FILE_SIZE then Some (WAV_file_too_large (length b))
      else None)"

subsection \<open>_parseWAVHeader\<close>

text \<open>
  The chunk scan: \<^verbatim>\<open>while (fmtOffset < wavBuffer.length - 8)\<close>, returning the offset at
  which the loop stopped and \<^verbatim>\<open>fmtSize\<close> (still 0 when no \<^verbatim>\<open>fmt \<close> chunk was met).
\<close>

function find_fmt :: "buffer \<Rightarrow> nat \<Rightarrow> (nat \<times> nat) option" where
  "find_fmt b fmtOffset =
     (if fmtOffset + 8 < length b then
        (case readUInt32LE b (fmtOffset + 4) of
           None \<Rightarrow> None
         | Some chunkSize \<Rightarrow>
             if subarray b fmtOffset (fmtOffset + 4) = FMT_SIGNATURE
             then Some (fmtOffset, chunkSize)
             else find_fmt b (fmtOffset + 8 + chunkSize))
      else Some (fmtOffset, 0))"
  by pat_completeness auto
termination
  by (relation "measure (\<lambda>(b, fmtOffset). length b - fmtOffset)") auto

declare find_fmt.simps [simp del]

definition parseWAVHeader :: "buffer \<Rightarrow> wav_error + header_info" where
  "parseWAVHeader b =
     (if length b < MIN_HEADER_SIZE then Inl Header_too_small
      else if subarray b 0 4 \<noteq> RIFF_SIGNATURE
        then Inl (Header_parsing_failed Invalid_RIFF_signature)
      else if subarray b 8 12 \<noteq> WAVE_SIGNATURE
        then Inl (Header_parsing_failed Invalid_WAVE_signature)
      else
        (case find_fmt b 12 of
           None \<Rightarrow> Inl (Header_parsing_failed Read_out_of_range)
         | Some (fmtOffset, fmtSize') \<Rightarrow>
             if fmtSize' = 0 then Inl (Header_parsing_failed Fmt_chunk_not_found)
             else
               (let fmtData = fmtOffset + 8 in
                case (readUInt16LE b fmtData, readUInt16LE b (fmtData + 2),
                      readUInt32LE b (fmtData + 4), readUInt32LE b (fmtData + 8),
                      readUInt16LE b (fmtData + 12), readUInt16LE b (fmtData + 14),
                      readUInt32LE b 4) of
                  (Some af, Some nc, Some sr, Some br, Some ba, Some bps, Some riff) \<Rightarrow>
                    Inr \<lparr> fileSize = riff + 8, audioFormat = af, numChannels = nc,
                          sampleRate = sr, byteRate = br, blockAlign = ba,
                          bitsPerSample = bps, fmtSize = fmtSize',
                          duration = calculateDuration (length b) sr nc bps \<rparr>
                | _ \<Rightarrow> Inl (Header_parsing_failed Read_out_of_range))))"

subsection \<open>_validateWAVFormat\<close>

definition expectedByteRate :: "header_info \<Rightarrow> rat" where
  "expectedByteRate h =
     of_nat (sampleRate h) * of_nat (numChannels h) * (of_nat (bitsPerSample h) / 8)"

definition format_errors :: "validation_level \<Rightarrow> header_info \<Rightarrow> issue list" where
  "format_errors lvl h =
     (if audioFormat h \<noteq> 1 then [Unsupported_audio_format (audioFormat h)] else [])
     @ (if sampleRate h \<noteq> preferredSampleRate \<and> lvl = Strict
        then [Sample_rate_mismatch (sampleRate h)] else [])
     @ (if numChannels h \<noteq> preferredChannels \<and> lvl = Strict
        then [Channel_count_mismatch (numChannels h)] else [])
     @ (if bitsPerSample h \<noteq> preferredBitDepth \<and> lvl = Strict
        then [Bit_depth_mismatch (bitsPerSample h)] else [])
     @ (if js_gt (duration h) MAX_DURATION then [Audio_too_long (duration h)] else [])"

definition format_warnings :: "validation_level \<Rightarrow> header_info \<Rightarrow> issue list" where
  "format_warnings lvl h =
     (if sampleRate h \<noteq> preferredSampleRate \<and> lvl \<noteq> Strict
        then [Sample_rate_mismatch (sampleRate h)] else [])
     @ (if numChannels h \<noteq> preferredChannels \<and> lvl \<noteq> Strict
        then [Channel_count_mismatch (numChannels h)] else [])
     @ (if bitsPerSample h \<noteq> preferredBitDepth \<and> lvl \<noteq> Strict
        then [Bit_depth_mismatch (bitsPerSample h)] else [])
     @ (if \<bar>of_nat (byteRate h) - expectedByteRate h\<bar> > 1
        then [Byte_rate_mismatch (byteRate h) (expectedByteRate h)] else [])"

definition validateWAVFormat :: "validation_level \<Rightarrow> header_info \<Rightarrow> validation_result" where
  "validateWAVFormat lvl h =
     (let errs = format_errors lvl h;
          warns = format_warnings lvl h;
          valid = (length errs = 0)
      in \<lparr> isValid = valid, errors = errs, warnings = warns,
           requiresFix = (\<not> valid \<or> (lvl = Strict \<and> length warns > 0)) \<rparr>)"

subsection \<open>validateAndProcess\<close>

text \<open>
  \<^verbatim>\<open>_fixWAVFormat\<close> runs FFmpeg on temporary files; it is a parameter here: \<open>Inl msg\<close> when
  the conversion throws, \<open>Inr\<close> the converted buffer otherwise.
\<close>

definition validateAndProcess ::
  "wav_validator \<Rightarrow> (buffer \<Rightarrow> string + buffer) \<Rightarrow> buffer \<Rightarrow> process_error + process_result" where
  "validateAndProcess v fixWAVFormat wavBuffer =
     (let lvl = validationLevel v;
          ok = (\<lambda>h processed fixed.
             Inr \<lparr> result_isValid = True, processedBuffer = processed,
                   metadata = \<lparr> headerInfo = h, wasProcessed = fixed,
                                originalSize = length wavBuffer,
                                finalSize = length processed \<rparr> \<rparr>);
          failed = (\<lambda>e. Inl (WAV_validation_failed e))
      in
      case validateFileSize wavBuffer of
        Some e \<Rightarrow> failed e
      | None \<Rightarrow>
         (case parseWAVHeader wavBuffer of
            Inl e \<Rightarrow> failed e
          | Inr h \<Rightarrow>
             (let validationResult = validateWAVFormat lvl h in
              if \<not> isValid validationResult \<and> autoFix v then
                (case fixWAVFormat wavBuffer of
                   Inl msg \<Rightarrow> failed (Conversion_failed msg)
                 | Inr processed \<Rightarrow>
                    (case parseWAVHeader processed of
                       Inl e \<Rightarrow> failed e
                     | Inr newHeaderInfo \<Rightarrow>
                        if \<not> isValid (validateWAVFormat lvl newHeaderInfo)
                        then failed Could_not_be_corrected
                        else ok h processed True))
              else if \<not> isValid validationResult
                then failed (Format_rejected (errors validationResult))
              else ok h wavBuffer False)))"

subsection \<open>Example buffers\<close>

text \<open>
  A canonical 44-byte header (RIFF, WAVE, a 16-byte \<^verbatim>\<open>fmt \<close> chunk, a \<^verbatim>\<open>data\<close> chunk)
  followed by \<open>n\<close> zero bytes of sample data: the inputs at which the validator is evaluated
  below.
\<close>

definition le16 :: "nat \<Rightarrow> buffer" where
  "le16 n = [of_nat n, of_nat (n div 256)]"

definition le32 :: "nat \<Rightarrow> buffer" where
  "le32 n = [of_nat n, of_nat (n div 256), of_nat (n div 65536), of_nat (n div 16777216)]"

definition wav_file :: "nat \<Rightarrow> nat \<Rightarrow> nat \<Rightarrow> nat \<Rightarrow> nat \<Rightarrow> nat \<Rightarrow> buffer" where
  "wav_file fmt ch sr br bits n =
     RIFF_SIGNATURE @ le32 (36 + n) @ WAVE_SIGNATURE @ FMT_SIGNATURE @ le32 16
     @ le16 fmt @ le16 ch @ le32 sr @ le32 br @ le16 (ch * bits div 8) @ le16 bits
     @ [0x64, 0x61, 0x74, 0x61] @ le32 n @ replicate n 0"

section \<open>The speech-to-text WebSocket handler (ws/sttHandler.js)\<close>

subsection \<open>Constants: CONFIG\<close>

definition TIMEOUT :: int where
  "TIMEOUT = 120000"

definition PROCESSING_MIN_FILE_SIZE :: nat where
  "PROCESSING_MIN_FILE_SIZE = 1000"

definition PROCESSING_MAX_FILE_SIZE :: nat where
  "PROCESSING_MAX_FILE_SIZE = 50 * 1024 * 1024"

definition MIN_INTERVAL :: int where
  "MIN_INTERVAL = 1000"

definition MAX_ERRORS :: nat where
  "MAX_ERRORS = 5"

definition COOLDOWN_TIME :: int where
  "COOLDOWN_TIME = 30000"

text \<open>The four canned phrases, as the UTF-8 bytes of the source's string literals.\<close>

definition MOCK_TRANSCRIPT_0 :: string where
  "MOCK_TRANSCRIPT_0 =
     [CHR 0xE0, CHR 0xA4, CHR 0xA8, CHR 0xE0, CHR 0xA4, CHR 0xAE, CHR 0xE0, CHR 0xA4,
       CHR 0xB8, CHR 0xE0, CHR 0xA5, CHR 0x8D, CHR 0xE0, CHR 0xA4, CHR 0xA4, CHR 0xE0,
       CHR 0xA5, CHR 0x87, CHR 0x2C, CHR 0x20, CHR 0xE0, CHR 0xA4, CHR 0x86, CHR 0xE0,
       CHR 0xA4, CHR 0x9C, CHR 0x20, CHR 0xE0, CHR 0xA4, CHR 0x95, CHR 0xE0, CHR 0xA4,
       CHR 0xBE, CHR 0x20, CHR 0xE0, CHR 0xA4, CHR 0xAE, CHR 0xE0, CHR 0xA5, CHR 0x80,
       CHR 0xE0, CHR 0xA4, CHR 0x9F, CHR 0xE0, CHR 0xA4, CHR 0xBF, CHR 0xE0, CHR 0xA4,
       CHR 0x82, CHR 0xE0, CHR 0xA4, CHR 0x97, CHR 0x20, CHR 0xE0, CHR 0xA4, CHR 0xB6,
       CHR 0xE0, CHR 0xA5, CHR 0x81, CHR 0xE0, CHR 0xA4, CHR 0xB0, CHR 0xE0, CHR 0xA5,
       CHR 0x82, CHR 0x20, CHR 0xE0, CHR 0xA4, CHR 0xB9, CHR 0xE0, CHR 0xA5, CHR 0x8B,
       CHR 0x20, CHR 0xE0, CHR 0xA4, CHR 0xB0, CHR 0xE0, CHR 0xA4, CHR 0xB9, CHR 0xE0,
       CHR 0xA4, CHR 0xBE, CHR 0x20, CHR 0xE0, CHR 0xA4, CHR 0xB9, CHR 0xE0, CHR 0xA5,
       CHR 0x88, CHR 0xE0, CHR 0xA5, CHR 0xA4]"

definition MOCK_TRANSCRIPT_1 :: string where
  "MOCK_TRANSCRIPT_1 =
     [CHR 0xE0, CHR 0xA4, CHR 0x86, CHR 0xE0, CHR 0xA4, CHR 0x9C, CHR 0x20, CHR 0xE0,
       CHR 0xA4, CHR 0xB9, CHR 0xE0, CHR 0xA4, CHR 0xAE, CHR 0xE0, CHR 0xA5, CHR 0x87,
       CHR 0xE0, CHR 0xA4, CHR 0x82, CHR 0x20, CHR 0xE0, CHR 0xA4, CHR 0xAA, CHR 0xE0,
       CHR 0xA5, CHR 0x8D, CHR 0xE0, CHR 0xA4, CHR 0xB0, CHR 0xE0, CHR 0xA5, CHR 0x8B,
       CHR 0xE0, CHR 0xA4, CHR 0x9C, CHR 0xE0, CHR 0xA5, CHR 0x87, CHR 0xE0, CHR 0xA4,
       CHR 0x95, CHR 0xE0, CHR 0xA5, CHR 0x8D, CHR 0xE0, CHR 0xA4, CHR 0x9F, CHR 0x20,
       CHR 0xE0, CHR 0xA4, CHR 0x95, CHR 0xE0, CHR 0xA5, CHR 0x87, CHR 0x20, CHR 0xE0,
       CHR 0xA4, CHR 0xAC, CHR 0xE0, CHR 0xA4, CHR 0xBE, CHR 0xE0, CHR 0xA4, CHR 0xB0,
       CHR 0xE0, CHR 0xA5, CHR 0x87, CHR 0x20, CHR 0xE0, CHR 0xA4, CHR 0xAE, CHR 0xE0,
       CHR 0xA5, CHR 0x87, CHR 0xE0, CHR 0xA4, CHR 0x82, CHR 0x20, CHR 0xE0, CHR 0xA4,
       CHR 0xAC, CHR 0xE0, CHR 0xA4, CHR 0xBE, CHR 0xE0, CHR 0xA4, CHR 0xA4, CHR 0x20,
       CHR 0xE0, CHR 0xA4, CHR 0x95, CHR 0xE0, CHR 0xA4, CHR 0xB0, CHR 0xE0, CHR 0xA4,
       CHR 0xA8, CHR 0xE0, CHR 0xA5, CHR 0x80, CHR 0x20, CHR 0xE0, CHR 0xA4, CHR 0xB9,
       CHR 0xE0, CHR 0xA5, CHR 0x88, CHR 0xE0, CHR 0xA5, CHR 0xA4]"

definition MOCK_TRANSCRIPT_2 :: string where
  "MOCK_TRANSCRIPT_2 =
     [CHR 0xE0, CHR 0xA4, CHR 0x95, CHR 0xE0, CHR 0xA5, CHR 0x8D, CHR 0xE0, CHR 0xA4,
       CHR 0xAF, CHR 0xE0, CHR 0xA4, CHR 0xBE, CHR 0x20, CHR 0xE0, CHR 0xA4, CHR 0xB8,
       CHR 0xE0, CHR 0xA4, CHR 0xAD, CHR 0xE0, CHR 0xA5, CHR 0x80, CHR 0x20, CHR 0xE0,
       CHR 0xA4, CHR 0xA4, CHR 0xE0, CHR 0xA5, CHR 0x88, CHR 0xE0, CHR 0xA4, CHR 0xAF,
       CHR 0xE0, CHR 0xA4, CHR 0xBE, CHR 0xE0, CHR 0xA4, CHR 0xB0, CHR 0x20, CHR 0xE0,
       CHR 0xA4, CHR 0xB9, CHR 0xE0, CHR 0xA5, CHR 0x88, CHR 0xE0, CHR 0xA4, CHR 0x82,
       CHR 0x3F]"

definition MOCK_TRANSCRIPT_3 :: string where
  "MOCK_TRANSCRIPT_3 =
     [CHR 0xE0, CHR 0xA4, CHR 0xA7, CHR 0xE0, CHR 0xA4, CHR 0xA8, CHR 0xE0, CHR 0xA5,
       CHR 0x8D, CHR 0xE0, CHR 0xA4, CHR 0xAF, CHR 0xE0, CHR 0xA4, CHR 0xB5, CHR 0xE0,
       CHR 0xA4, CHR 0xBE, CHR 0xE0, CHR 0xA4, CHR 0xA6, CHR 0x2C, CHR 0x20, CHR 0xE0,
       CHR 0xA4, CHR 0xAE, CHR 0xE0, CHR 0xA5, CHR 0x80, CHR 0xE0, CHR 0xA4, CHR 0x9F,
       CHR 0xE0, CHR 0xA4, CHR 0xBF, CHR 0xE0, CHR 0xA4, CHR 0x82, CHR 0xE0, CHR 0xA4,
       CHR 0x97, CHR 0x20, CHR 0xE0, CHR 0xA4, CHR 0xB8, CHR 0xE0, CHR 0xA4, CHR 0xAE,
       CHR 0xE0, CHR 0xA4, CHR 0xBE, CHR 0xE0, CHR 0xA4, CHR 0xAA, CHR 0xE0, CHR 0xA5,
       CHR 0x8D, CHR 0xE0, CHR 0xA4, CHR 0xA4, CHR 0xE0, CHR 0xA5, CHR 0xA4]"

definition MOCK_TRANSCRIPTS :: "string list" where
  "MOCK_TRANSCRIPTS =
     [MOCK_TRANSCRIPT_0, MOCK_TRANSCRIPT_1, MOCK_TRANSCRIPT_2, MOCK_TRANSCRIPT_3]"

subsection \<open>Strings\<close>

text \<open>
  A string is the list of the bytes of its UTF-8 encoding. \<^verbatim>\<open>trim\<close> removes the white
  space and line terminators of ECMAScript from both ends: the six ASCII ones, and the ones
  beyond ASCII as their two- and three-byte sequences.
\<close>

definition is_space :: "char \<Rightarrow> bool" where
  "is_space c =
     (c = CHR 0x09 \<or> c = CHR 0x0A \<or> c = CHR 0x0B \<or> c = CHR 0x0C \<or> c = CHR 0x0D
      \<or> c = CHR 0x20)"

text \<open>
  The white space of two and three bytes: U+00A0; U+1680, U+2000 to U+200A, U+2028, U+2029,
  U+202F, U+205F, U+3000 and U+FEFF.
\<close>

definition is_space2 :: "char \<Rightarrow> char \<Rightarrow> bool" where
  "is_space2 a b = (a = CHR 0xC2 \<and> b = CHR 0xA0)"

definition is_space3 :: "char \<Rightarrow> char \<Rightarrow> char \<Rightarrow> bool" where
  "is_space3 a b c =
     ((a = CHR 0xE1 \<and> b = CHR 0x9A \<and> c = CHR 0x80)
      \<or> (a = CHR 0xE2 \<and> b = CHR 0x80
          \<and> ((0x80 \<le> (of_char c :: nat) \<and> (of_char c :: nat) \<le> 0x8A)
              \<or> c = CHR 0xA8 \<or> c = CHR 0xA9 \<or> c = CHR 0xAF))
      \<or> (a = CHR 0xE2 \<and> b = CHR 0x81 \<and> c = CHR 0x9F)
      \<or> (a = CHR 0xE3 \<and> b = CHR 0x80 \<and> c = CHR 0x80)
      \<or> (a = CHR 0xEF \<and> b = CHR 0xBB \<and> c = CHR 0xBF))"

fun trim_start :: "string \<Rightarrow> string" where
  "trim_start (a # b # c # cs) =
     (if is_space a then trim_start (b # c # cs)
      else if is_space2 a b then trim_start (c # cs)
      else if is_space3 a b c then trim_start cs
      else a # b # c # cs)"
| "trim_start [a, b] =
     (if is_space a then trim_start [b] else if is_space2 a b then [] else [a, b])"
| "trim_start [a] = (if is_space a then [] else [a])"
| "trim_start [] = []"

text \<open>The same from the end, on the reversed string.\<close>

fun trim_end_rev :: "string \<Rightarrow> string" where
  "trim_end_rev (c # b # a # cs) =
     (if is_space c then trim_end_rev (b # a # cs)
      else if is_space2 b c then trim_end_rev (a # cs)
      else if is_space3 a b c then trim_end_rev cs
      else c # b # a # cs)"
| "trim_end_rev [c, b] =
     (if is_space c then trim_end_rev [b] else if is_space2 b c then [] else [c, b])"
| "trim_end_rev [c] = (if is_space c then [] else [c])"
| "trim_end_rev [] = []"

definition js_trim :: "string \<Rightarrow> string" where
  "js_trim s = rev (trim_end_rev (rev (trim_start s)))"

text \<open>
  \<^verbatim>\<open>s.substring(0, n)\<close> counts UTF-16 code units: a character of one, two or three bytes is
  one unit, a character of four bytes is a surrogate pair of two. When the cut falls between
  the two halves of a pair the result ends with the lone high surrogate, written here in the
  same three-byte form. \<open>utf8_length\<close> is the number of bytes of the character that a byte
  starts. A byte list that is not well-formed UTF-8 stands for no JavaScript string; the
  functions are total on it all the same (a four-byte character cut short by the end of the
  list is kept as it is).
\<close>

definition utf8_length :: "char \<Rightarrow> nat" where
  "utf8_length c =
     (if (of_char c :: nat) < 0xC0 then 1
      else if (of_char c :: nat) < 0xE0 then 2
      else if (of_char c :: nat) < 0xF0 then 3
      else 4)"

definition high_surrogate :: "string \<Rightarrow> string" where
  "high_surrogate bs =
     (let cp = (of_char (bs ! 0) mod 8) * 262144 + (of_char (bs ! 1) mod 64) * 4096
               + (of_char (bs ! 2) mod 64) * 64 + (of_char (bs ! 3) mod 64 :: nat);
          hs = 0xD800 + (cp - 0x10000) div 1024
      in [CHR 0xED, char_of (0x80 + (hs div 64) mod 64), char_of (0x80 + hs mod 64)])"

function utf16_take :: "nat \<Rightarrow> string \<Rightarrow> string" where
  "utf16_take n [] = []"
| "utf16_take n (c # cs) =
     (if n = 0 then []
      else if utf8_length c < 4
        then take (utf8_length c) (c # cs) @ utf16_take (n - 1) (drop (utf8_length c - 1) cs)
      else if 2 \<le> n then take 4 (c # cs) @ utf16_take (n - 2) (drop 3 cs)
      else if length cs < 3 then c # cs
      else high_surrogate (take 4 (c # cs)))"
  by pat_completeness auto
termination
  by (relation "measure (\<lambda>(n, s). length s)") auto

text \<open>\<^verbatim>\<open>s.includes(pat)\<close>.\<close>

fun str_includes :: "string \<Rightarrow> string \<Rightarrow> bool" where
  "str_includes [] pat = (pat = [])"
| "str_includes (c # cs) pat = (take (length pat) (c # cs) = pat \<or> str_includes cs pat)"

definition digit_char :: "nat \<Rightarrow> char" where
  "digit_char d = ''0123456789'' ! d"

text \<open>The decimal text of a number, as a template literal interpolates it.\<close>

function string_of_nat :: "nat \<Rightarrow> string" where
  "string_of_nat n =
     (if n < 10 then [digit_char n]
      else string_of_nat (n div 10) @ [digit_char (n mod 10)])"
  by pat_completeness auto
termination
  by (relation "measure id") auto

declare string_of_nat.simps [simp del]

subsection \<open>transcribeWAVFile\<close>

text \<open>
  What the network does to one request is an input of the model: the response whose
  \<^verbatim>\<open>end\<close> event arrives (status code and body), or the event that rejects the promise
  first. \<^verbatim>\<open>JSON.parse\<close> is a parameter, reduced to what the code reads of its result.
\<close>

datatype json_result = Parse_error string | Json_transcript string | Json_other

datatype network_event =
    Response nat string
  | Response_too_large
  | Response_timeout
  | Request_error string string
  | Socket_timeout
  | Request_timeout
  | Form_error string
  | Preparation_failed string

definition errorMessages :: "nat \<Rightarrow> string option" where
  "errorMessages = map_of
     [(400, ''Invalid audio format or corrupted file''),
      (401, ''Invalid API key - check SARVAM_API_KEY''),
      (403, ''API access forbidden - check subscription status''),
      (413, ''Audio file too large for API''),
      (429, ''Rate limit exceeded - please try again in a moment''),
      (500, ''SarvamAI server error - please try again later''),
      (503, ''SarvamAI service temporarily unavailable'')]"

text \<open>
  \<^verbatim>\<open>errorMessages[response.statusCode] || `API error ${statusCode}: ${body.substring(0, 200)}`\<close>
\<close>

definition api_error_message :: "nat \<Rightarrow> string \<Rightarrow> string" where
  "api_error_message statusCode responseData =
     (case errorMessages statusCode of
        Some msg \<Rightarrow> msg
      | None \<Rightarrow>
          ''API error '' @ string_of_nat statusCode @ '': '' @ utf16_take 200 responseData)"

definition requestErrorMessages :: "string \<Rightarrow> string option" where
  "requestErrorMessages = map_of
     [(''ECONNRESET'', ''Connection reset - API server issue''),
      (''ENOTFOUND'', ''Cannot reach SarvamAI API - check internet connection''),
      (''ETIMEDOUT'', ''Connection timeout - check network connectivity''),
      (''ECONNREFUSED'', ''Connection refused - API server may be down''),
      (''CERT_HAS_EXPIRED'', ''SSL certificate error - API issue'')]"

text \<open>\<open>Inl\<close> is the message of the Error the promise rejects with, \<open>Inr\<close> the transcript.\<close>

definition transcribeWAVFile ::
  "(string \<Rightarrow> json_result) \<Rightarrow> buffer \<Rightarrow> network_event \<Rightarrow> string + string" where
  "transcribeWAVFile JSON_parse audioBuffer net =
     (if length audioBuffer < PROCESSING_MIN_FILE_SIZE
        then Inl ''Audio buffer too small or empty''
      else if length audioBuffer > PROCESSING_MAX_FILE_SIZE
        then Inl ''Audio file too large (max 50MB)''
      else
        (case net of
           Response statusCode responseData \<Rightarrow>
             if statusCode = 200 then
               (case JSON_parse responseData of
                  Parse_error msg \<Rightarrow> Inl (''Response parsing failed: '' @ msg)
                | Json_transcript t \<Rightarrow> Inr (js_trim t)
                | Json_other \<Rightarrow> Inr '''')
             else Inl (api_error_message statusCode responseData)
         | Response_too_large \<Rightarrow> Inl ''Response too large - possible API error''
         | Response_timeout \<Rightarrow> Inl ''Response timeout''
         | Request_error code msg \<Rightarrow>
             (case requestErrorMessages code of
                Some m \<Rightarrow> Inl m
              | None \<Rightarrow> Inl (''Network error: '' @ msg))
         | Socket_timeout \<Rightarrow> Inl ''Socket timeout''
         | Request_timeout \<Rightarrow>
             Inl ''API request timeout - server taking too long to respond''
         | Form_error msg \<Rightarrow> Inl (''Form data error: '' @ msg)
         | Preparation_failed msg \<Rightarrow> Inl (''Request preparation failed: '' @ msg)))"

subsection \<open>The semantic errors of the specification\<close>

text \<open>
  The specification names the error each status code stands for; the code only has
  messages. \<open>spec_status_kind\<close> follows the specification's sentence (400 bad audio, 401 and
  403 authentication or authorization failure, 413 payload too large, 429 rate-limited, 5xx
  upstream unavailable); \<open>message_kind\<close> reads each fixed message of the code's table as the
  error it words, and every other message (the generic fallback among them) as none of them.
\<close>

datatype error_kind = BadAudio | AuthFailure | PayloadTooLarge | RateLimited | UpstreamUnavailable

definition spec_status_kind :: "nat \<Rightarrow> error_kind option" where
  "spec_status_kind statusCode =
     (if statusCode = 400 then Some BadAudio
      else if statusCode = 401 \<or> statusCode = 403 then Some AuthFailure
      else if statusCode = 413 then Some PayloadTooLarge
      else if statusCode = 429 then Some RateLimited
      else if 500 \<le> statusCode \<and> statusCode \<le> 599 then Some UpstreamUnavailable
      else None)"

definition message_kind :: "string \<Rightarrow> error_kind option" where
  "message_kind = map_of
     [(''Invalid audio format or corrupted file'', BadAudio),
      (''Invalid API key - check SARVAM_API_KEY'', AuthFailure),
      (''API access forbidden - check subscription status'', AuthFailure),
      (''Audio file too large for API'', PayloadTooLarge),
      (''Rate limit exceeded - please try again in a moment'', RateLimited),
      (''SarvamAI server error - please try again later'', UpstreamUnavailable),
      (''SarvamAI service temporarily unavailable'', UpstreamUnavailable)]"

subsection \<open>The state of one connection\<close>

type_synonym message = string

text \<open>
  What \<^verbatim>\<open>client.send\<close> is called with: the fields of the JSON object (the ISO timestamp of
  a transcript is the time of sending and is left out).
\<close>

datatype outbound =
    Error_only string
  | Error_technical string string
  | Transcript_result string int
  | Transcript_message string string
  | Transcript_only string

text \<open>The callbacks handed to \<^verbatim>\<open>setTimeout\<close>, each pending with the time it is due.\<close>

datatype callback = Reset_errors | Redeliver message | Processing_timeout

text \<open>
  How the awaited part of one processing cycle ends: an error thrown before
  \<^verbatim>\<open>transcribeWAVFile\<close> is called (message parsing, WAV validation), a rejection of
  \<^verbatim>\<open>transcribeWAVFile\<close> (with the time at which the 3 minute processing timeout was set,
  which the \<^verbatim>\<open>catch\<close> branch does not clear), or a transcript (after which the timeout
  is cleared). While \<^verbatim>\<open>transcribeWAVFile\<close> is awaited the timeout is not among the pending
  timers of the model: the request settles within its own 2 minute \<open>TIMEOUT\<close>, before the
  3 minutes are over.
\<close>

datatype outcome = Pipeline_failed string | Transcribe_failed int string | Transcribed string

record session =
  isProcessing :: bool
  processingQueue :: "message list"
  lastProcessTime :: int
  consecutiveErrors :: nat
  readyOpen :: bool
  timers :: "(int \<times> callback) list"
  inflight :: "(int \<times> message) list"

text \<open>
  \<open>readyOpen\<close> is \<^verbatim>\<open>client.readyState === WebSocket.OPEN\<close>; \<open>inflight\<close> holds the suspended
  processing cycles (the handler invocations waiting at an \<^verbatim>\<open>await\<close>), each with its
  \<^verbatim>\<open>currentTime\<close> and message.
\<close>

definition initial_session :: session where
  "initial_session =
     \<lparr> isProcessing = False, processingQueue = [], lastProcessTime = 0,
       consecutiveErrors = 0, readyOpen = True, timers = [], inflight = [] \<rparr>"

subsection \<open>The message handler\<close>

text \<open>
  The synchronous part of \<^verbatim>\<open>client.on("message")\<close>, up to the first \<^verbatim>\<open>await\<close>: the guards
  in the order of the source, then the start of a processing cycle. \<open>now\<close> is
  \<^verbatim>\<open>Date.now()\<close>. \<^verbatim>\<open>client.send\<close> is taken not to throw, so the handler's outermost
  \<^verbatim>\<open>catch\<close> is never entered.
\<close>

definition on_message :: "session \<Rightarrow> int \<Rightarrow> message \<Rightarrow> session \<times> outbound list" where
  "on_message s now msg =
     (if length msg = 0 then (s, [])
      else if now - lastProcessTime s < MIN_INTERVAL then (s, [])
      else if length msg > PROCESSING_MAX_FILE_SIZE
        then (s, [Error_only ''Audio file too large (max 50MB)''])
      else if length msg < PROCESSING_MIN_FILE_SIZE then (s, [])
      else if isProcessing s then (s\<lparr>processingQueue := [msg]\<rparr>, [])
      else if consecutiveErrors s \<ge> MAX_ERRORS
        then (s\<lparr>timers := timers s @ [(now + COOLDOWN_TIME, Reset_errors)]\<rparr>,
              [Error_only ''Service temporarily unavailable due to errors''])
      else (s\<lparr>isProcessing := True, lastProcessTime := now,
               inflight := inflight s @ [(now, msg)]\<rparr>, []))"

definition userMessage :: "string \<Rightarrow> string" where
  "userMessage m =
     (if str_includes m ''timeout'' then ''Processing took too long, please try again''
      else if str_includes m ''network'' \<or> str_includes m ''connection''
        then ''Network error, please check your connection''
      else if str_includes m ''API key'' then ''Service authentication error''
      else if str_includes m ''rate limit'' then ''Service busy, please try again in a moment''
      else if str_includes m ''audio format'' \<or> str_includes m ''corrupted''
        then ''Audio format not supported, please try again''
      else if str_includes m ''too large'' then ''Audio file too large''
      else ''Transcription failed'')"

definition on_error :: "session \<Rightarrow> string \<Rightarrow> session \<times> outbound list" where
  "on_error s m =
     (s\<lparr>consecutiveErrors := consecutiveErrors s + 1\<rparr>,
      [Error_technical (userMessage m) (utf16_take 200 m)])"

text \<open>
  The rest of the handler, run when the awaited pipeline of the cycle started at
  \<open>currentTime\<close> settles at time \<open>now\<close>: the result or the \<^verbatim>\<open>catch\<close> branch, then
  \<^verbatim>\<open>isProcessing = false\<close> and the dispatch of the queued message.
\<close>

definition finish :: "session \<Rightarrow> int \<Rightarrow> int \<Rightarrow> outcome \<Rightarrow> session \<times> outbound list" where
  "finish s now currentTime r =
     (let (s1, out) =
        (case r of
           Transcribed transcript \<Rightarrow>
             if transcript \<noteq> [] \<and> js_trim transcript \<noteq> []
             then (s\<lparr>consecutiveErrors := 0\<rparr>,
                   [Transcript_result (js_trim transcript) (now - currentTime)])
             else (s, [Transcript_message [] ''No speech detected in audio''])
         | Pipeline_failed m \<Rightarrow> on_error s m
         | Transcribe_failed setAt m \<Rightarrow>
             on_error (s\<lparr>timers := timers s @ [(setAt + 180000, Processing_timeout)]\<rparr>) m);
          s2 = s1\<lparr>isProcessing := False\<rparr>
      in if length (processingQueue s2) > 0
         then (s2\<lparr>processingQueue := [],
                  timers := timers s2 @ [(now + 500, Redeliver (last (processingQueue s2)))]\<rparr>,
               out)
         else (s2, out))"

text \<open>A timer callback runs.\<close>

fun fire :: "session \<Rightarrow> int \<Rightarrow> callback \<Rightarrow> session \<times> outbound list" where
  "fire s now Reset_errors = (s\<lparr>consecutiveErrors := 0\<rparr>, [])"
| "fire s now (Redeliver queuedMessage) =
     (if readyOpen s then on_message s now queuedMessage else (s, []))"
| "fire s now Processing_timeout = (s\<lparr>isProcessing := False\<rparr>, [])"

subsection \<open>The events of a connection\<close>

text \<open>
  A message arrives; the pipeline of the \<open>k\<close>-th suspended cycle settles; the \<open>k\<close>-th pending
  timer fires (only once it is due); the connection closes; the socket reports an error.
\<close>

datatype event =
    Message int message
  | Complete int nat outcome
  | Timer int nat
  | Close
  | Socket_error

definition remove_nth :: "nat \<Rightarrow> 'a list \<Rightarrow> 'a list" where
  "remove_nth k xs = take k xs @ drop (Suc k) xs"

fun step :: "session \<Rightarrow> event \<Rightarrow> session \<times> outbound list" where
  "step s (Message now msg) = on_message s now msg"
| "step s (Complete now k r) =
     (if k < length (inflight s)
      then finish (s\<lparr>inflight := remove_nth k (inflight s)\<rparr>) now (fst (inflight s ! k)) r
      else (s, []))"
| "step s (Timer now k) =
     (if k < length (timers s) \<and> fst (timers s ! k) \<le> now
      then fire (s\<lparr>timers := remove_nth k (timers s)\<rparr>) now (snd (timers s ! k))
      else (s, []))"
| "step s Close = (s\<lparr>isProcessing := False, processingQueue := [], readyOpen := False\<rparr>, [])"
| "step s Socket_error = (s\<lparr>isProcessing := False, processingQueue := []\<rparr>, [])"

fun run :: "session \<Rightarrow> event list \<Rightarrow> session \<times> outbound list" where
  "run s [] = (s, [])"
| "run s (e # es) =
     (let (s1, out1) = step s e; (s2, out2) = run s1 es in (s2, out1 @ out2))"

text \<open>A message that gets past the guards that precede the queue and the cooldown check.\<close>

definition passes_guards :: "session \<Rightarrow> int \<Rightarrow> message \<Rightarrow> bool" where
  "passes_guards s now msg =
     (length msg \<noteq> 0 \<and> \<not> now - lastProcessTime s < MIN_INTERVAL
      \<and> \<not> length msg > PROCESSING_MAX_FILE_SIZE \<and> \<not> length msg < PROCESSING_MIN_FILE_SIZE)"

subsection \<open>Mock mode\<close>

text \<open>
  Without an API key the connection gets a message handler of its own: each message sets a
  1500 ms timer whose callback, if the socket is still open, sends the phrase at
  \<^verbatim>\<open>mockIndex % MOCK_TRANSCRIPTS.length\<close> and increments \<^verbatim>\<open>mockIndex\<close>. The timers all have
  the same delay, so they fire in the order in which they were set.
\<close>

record mock_session =
  mockIndex :: nat
  mock_timers :: "int list"
  mock_open :: bool

definition initial_mock :: mock_session where
  "initial_mock = \<lparr> mockIndex = 0, mock_timers = [], mock_open = True \<rparr>"

definition mock_on_message :: "mock_session \<Rightarrow> int \<Rightarrow> message \<Rightarrow> mock_session \<times> outbound list" where
  "mock_on_message s now msg = (s\<lparr>mock_timers := mock_timers s @ [now + 1500]\<rparr>, [])"

text \<open>The reply sent when \<^verbatim>\<open>mockIndex\<close> is \<open>i\<close>.\<close>

definition mock_reply :: "nat \<Rightarrow> outbound" where
  "mock_reply i = Transcript_only (MOCK_TRANSCRIPTS ! (i mod length MOCK_TRANSCRIPTS))"

definition mock_timeout :: "mock_session \<Rightarrow> mock_session \<times> outbound list" where
  "mock_timeout s =
     (if mock_open s
      then (s\<lparr>mockIndex := mockIndex s + 1\<rparr>, [mock_reply (mockIndex s)])
      else (s, []))"

datatype mock_event = Mock_message int message | Mock_timer int | Mock_close

fun mock_step :: "mock_session \<Rightarrow> mock_event \<Rightarrow> mock_session \<times> outbound list" where
  "mock_step s (Mock_message now msg) = mock_on_message s now msg"
| "mock_step s (Mock_timer now) =
     (case mock_timers s of
        [] \<Rightarrow> (s, [])
      | due # rest \<Rightarrow>
          if due \<le> now then mock_timeout (s\<lparr>mock_timers := rest\<rparr>) else (s, []))"
| "mock_step s Mock_close = (s\<lparr>mock_open := False\<rparr>, [])"

fun mock_run :: "mock_session \<Rightarrow> mock_event list \<Rightarrow> mock_session \<times> outbound list" where
  "mock_run s [] = (s, [])"
| "mock_run s (e # es) =
     (let (s1, out1) = mock_step s e; (s2, out2) = mock_run s1 es in (s2, out1 @ out2))"

text \<open>The arrival times of the messages among the events, in order.\<close>

fun arrivals :: "mock_event list \<Rightarrow> int list" where
  "arrivals [] = []"
| "arrivals (Mock_message now msg # es) = now # arrivals es"
| "arrivals (e # es) = arrivals es"


section \<open>Properties of the WAV validator\<close>

lemma validateWAVFormat_isValid:
  "isValid (validateWAVFormat lvl h) = (format_errors lvl h = [])"
  by (simp add: validateWAVFormat_def Let_def)

lemmas parse_eval = wav_file_def le16_def le32_def parseWAVHeader_def MIN_HEADER_SIZE_def
  subarray_def RIFF_SIGNATURE_def WAVE_SIGNATURE_def FMT_SIGNATURE_def readUInt16LE_def
  readUInt32LE_def calculateDuration_def js_div_def nth_append find_fmt.simps

lemma parse_zero_rate_44:
  "parseWAVHeader (wav_file 1 1 0 0 16 0) =
     Inr \<lparr>fileSize = 44, audioFormat = 1, numChannels = 1, sampleRate = 0, byteRate = 0,
          blockAlign = 2, bitsPerSample = 16, fmtSize = 16, duration = NaN\<rparr>"
  by (simp add: parse_eval)

lemma parse_zero_rate_1000:
  "parseWAVHeader (wav_file 1 1 0 0 16 956) =
     Inr \<lparr>fileSize = 1000, audioFormat = 1, numChannels = 1, sampleRate = 0, byteRate = 0,
          blockAlign = 2, bitsPerSample = 16, fmtSize = 16, duration = PosInfinity\<rparr>"
  by (simp add: parse_eval)

lemma parse_bad_byte_rate:
  "parseWAVHeader (wav_file 1 1 16000 0 16 956) =
     Inr \<lparr>fileSize = 1000, audioFormat = 1, numChannels = 1, sampleRate = 16000,
          byteRate = 0, blockAlign = 2, bitsPerSample = 16, fmtSize = 16,
          duration = Num (239 / 8000)\<rparr>"
  by (simp add: parse_eval)

lemma parse_float_format:
  "parseWAVHeader (wav_file 3 1 16000 32000 16 956) =
     Inr \<lparr>fileSize = 1000, audioFormat = 3, numChannels = 1, sampleRate = 16000,
          byteRate = 32000, blockAlign = 2, bitsPerSample = 16, fmtSize = 16,
          duration = Num (239 / 8000)\<rparr>"
  by (simp add: parse_eval)

lemma parse_good:
  "parseWAVHeader (wav_file 1 1 16000 32000 16 956) =
     Inr \<lparr>fileSize = 1000, audioFormat = 1, numChannels = 1, sampleRate = 16000,
          byteRate = 32000, blockAlign = 2, bitsPerSample = 16, fmtSize = 16,
          duration = Num (239 / 8000)\<rparr>"
  by (simp add: parse_eval)

lemma length_wav_file: "length (wav_file fmt ch sr br bits n) = 44 + n"
  by (simp add: wav_file_def le16_def le32_def RIFF_SIGNATURE_def WAVE_SIGNATURE_def FMT_SIGNATURE_def)

lemmas validate_eval = validateWAVFormat_def format_errors_def format_warnings_def
  expectedByteRate_def preferredSampleRate_def preferredChannels_def preferredBitDepth_def
  MAX_DURATION_def Let_def

subsection \<open>The format code check has no strictness exception\<close>

text \<open>
  Claim C7. For every header whose audio format code is not 1 (PCM), the verdict of
  \<open>validateWAVFormat\<close> has \<open>isValid = False\<close> and its error list holds the unsupported-format
  error, whatever the validation level (basic, standard or strict).
\<close>

theorem non_pcm_is_invalid_at_every_level:
  "audioFormat h \<noteq> 1 \<Longrightarrow>
     \<not> isValid (validateWAVFormat lvl h)
     \<and> Unsupported_audio_format (audioFormat h) \<in> set (errors (validateWAVFormat lvl h))"
  by (simp add: validateWAVFormat_def format_errors_def Let_def)

theorem non_pcm_is_invalid_witness:
  "parseWAVHeader (wav_file 3 1 16000 32000 16 956) =
     Inr \<lparr>fileSize = 1000, audioFormat = 3, numChannels = 1, sampleRate = 16000,
          byteRate = 32000, blockAlign = 2, bitsPerSample = 16, fmtSize = 16,
          duration = Num (239 / 8000)\<rparr>
   \<and> \<not> isValid (validateWAVFormat Basic \<lparr>fileSize = 1000, audioFormat = 3, numChannels = 1,
          sampleRate = 16000, byteRate = 32000, blockAlign = 2, bitsPerSample = 16,
          fmtSize = 16, duration = Num (239 / 8000)\<rparr>)
   \<and> \<not> isValid (validateWAVFormat Standard \<lparr>fileSize = 1000, audioFormat = 3, numChannels = 1,
          sampleRate = 16000, byteRate = 32000, blockAlign = 2, bitsPerSample = 16,
          fmtSize = 16, duration = Num (239 / 8000)\<rparr>)
   \<and> \<not> isValid (validateWAVFormat Strict \<lparr>fileSize = 1000, audioFormat = 3, numChannels = 1,
          sampleRate = 16000, byteRate = 32000, blockAlign = 2, bitsPerSample = 16,
          fmtSize = 16, duration = Num (239 / 8000)\<rparr>)
   \<and> errors (validateWAVFormat Standard \<lparr>fileSize = 1000, audioFormat = 3, numChannels = 1,
          sampleRate = 16000, byteRate = 32000, blockAlign = 2, bitsPerSample = 16,
          fmtSize = 16, duration = Num (239 / 8000)\<rparr>) = [Unsupported_audio_format 3]"
proof -
  let ?h = "\<lparr>fileSize = 1000, audioFormat = 3, numChannels = 1, sampleRate = 16000,
          byteRate = 32000, blockAlign = 2, bitsPerSample = 16, fmtSize = 16,
          duration = Num (239 / 8000)\<rparr>"
  have ne: "audioFormat ?h \<noteq> 1" by simp
  have e: "errors (validateWAVFormat Standard ?h) = [Unsupported_audio_format 3]"
    by (simp add: validate_eval)
  show ?thesis
    using parse_float_format e
      non_pcm_is_invalid_at_every_level [OF ne, of Basic]
      non_pcm_is_invalid_at_every_level [OF ne, of Standard]
      non_pcm_is_invalid_at_every_level [OF ne, of Strict]
    by simp
qed

subsection \<open>The byte rate check\<close>

text \<open>
  Claim C6 as stated fails: under strict validation a header parsed from a buffer whose byte
  rate field is 0 instead of 32000, and which is otherwise the preferred format, is valid and
  has no error; the mismatch is a warning.
\<close>

theorem byte_rate_mismatch_strict_counterexample:
  "parseWAVHeader (wav_file 1 1 16000 0 16 956) =
     Inr \<lparr>fileSize = 1000, audioFormat = 1, numChannels = 1, sampleRate = 16000,
          byteRate = 0, blockAlign = 2, bitsPerSample = 16, fmtSize = 16,
          duration = Num (239 / 8000)\<rparr>
   \<and> expectedByteRate \<lparr>fileSize = 1000, audioFormat = 1, numChannels = 1, sampleRate = 16000,
          byteRate = 0, blockAlign = 2, bitsPerSample = 16, fmtSize = 16,
          duration = Num (239 / 8000)\<rparr> = 32000
   \<and> validateWAVFormat Strict \<lparr>fileSize = 1000, audioFormat = 1, numChannels = 1,
          sampleRate = 16000, byteRate = 0, blockAlign = 2, bitsPerSample = 16, fmtSize = 16,
          duration = Num (239 / 8000)\<rparr>
       = \<lparr>isValid = True, errors = [], warnings = [Byte_rate_mismatch 0 32000],
          requiresFix = True\<rparr>"
  by (intro conjI, rule parse_bad_byte_rate) (simp_all add: validate_eval)

lemma byte_rate_not_in_format_errors: "Byte_rate_mismatch x y \<notin> set (format_errors lvl h)"
  by (simp add: format_errors_def)

lemma format_errors_byteRate_update: "format_errors lvl (h\<lparr>byteRate := b\<rparr>) = format_errors lvl h"
  by (simp add: format_errors_def)

text \<open>
  Claim C6, amended. A byte rate that differs from
  \<open>sampleRate * numChannels * (bitsPerSample / 8)\<close> by more than 1 is reported as a warning
  at every validation level, strict included. It is never an error: no byte rate error is in
  the error list, and neither the error list nor \<open>isValid\<close> depends on the byte rate field.
  Under strict validation the warning sets \<open>requiresFix\<close>, nothing more.
\<close>

theorem byte_rate_mismatch_is_only_a_warning:
  "\<bar>of_nat (byteRate h) - expectedByteRate h\<bar> > 1 \<Longrightarrow>
     Byte_rate_mismatch (byteRate h) (expectedByteRate h) \<in> set (warnings (validateWAVFormat lvl h))
     \<and> Byte_rate_mismatch x y \<notin> set (errors (validateWAVFormat lvl h))
     \<and> errors (validateWAVFormat lvl (h\<lparr>byteRate := b\<rparr>)) = errors (validateWAVFormat lvl h)
     \<and> isValid (validateWAVFormat lvl (h\<lparr>byteRate := b\<rparr>)) = isValid (validateWAVFormat lvl h)
     \<and> (lvl = Strict \<longrightarrow> requiresFix (validateWAVFormat lvl h))"
  by (simp add: validateWAVFormat_def Let_def format_warnings_def byte_rate_not_in_format_errors
      format_errors_byteRate_update)


lemma byte_rate_witness_pre: "\<bar>of_nat (byteRate \<lparr>fileSize = 1000, audioFormat = 1, numChannels = 1,
          sampleRate = 16000, byteRate = 0, blockAlign = 2, bitsPerSample = 16, fmtSize = 16,
          duration = Num (239 / 8000)\<rparr>) - expectedByteRate \<lparr>fileSize = 1000, audioFormat = 1, numChannels = 1,
          sampleRate = 16000, byteRate = 0, blockAlign = 2, bitsPerSample = 16, fmtSize = 16,
          duration = Num (239 / 8000)\<rparr>\<bar> > 1"
  by (simp add: expectedByteRate_def)

theorem byte_rate_mismatch_is_only_a_warning_witness:
  "Byte_rate_mismatch 0 32000 \<in> set (warnings (validateWAVFormat Standard \<lparr>fileSize = 1000,
          audioFormat = 1, numChannels = 1, sampleRate = 16000, byteRate = 0, blockAlign = 2,
          bitsPerSample = 16, fmtSize = 16, duration = Num (239 / 8000)\<rparr>))
   \<and> isValid (validateWAVFormat Standard \<lparr>fileSize = 1000,
          audioFormat = 1, numChannels = 1, sampleRate = 16000, byteRate = 0, blockAlign = 2,
          bitsPerSample = 16, fmtSize = 16, duration = Num (239 / 8000)\<rparr>)
   \<and> requiresFix (validateWAVFormat Strict \<lparr>fileSize = 1000,
          audioFormat = 1, numChannels = 1, sampleRate = 16000, byteRate = 0, blockAlign = 2,
          bitsPerSample = 16, fmtSize = 16, duration = Num (239 / 8000)\<rparr>)"
  using byte_rate_mismatch_is_only_a_warning [OF byte_rate_witness_pre, of Standard 0 0 32000]
    byte_rate_mismatch_is_only_a_warning [OF byte_rate_witness_pre, of Strict 0 0 32000]
  by (simp add: validate_eval)

subsection \<open>The duration\<close>

text \<open>
  With a non-zero sample rate, channel count and bit depth the duration is the quotient of
  the specification clamped at 0. With a zero among them JavaScript divides by zero: the
  result is \<open>Infinity\<close> for a buffer longer than 44 bytes and \<open>NaN\<close> for one of exactly
  44 bytes, which \<^verbatim>\<open>Math.max(0, NaN)\<close> leaves as it is.
\<close>

lemma calculateDuration_nonzero:
  "sr > 0 \<Longrightarrow> ch > 0 \<Longrightarrow> bits > 0 \<Longrightarrow>
     calculateDuration n sr ch bits =
       Num (max 0 (of_int (int n - 44) / (of_nat sr * of_nat ch * (of_nat bits / 8))))"
  by (simp add: calculateDuration_def js_div_def MIN_HEADER_SIZE_def Let_def)

lemma calculateDuration_zero_divisor:
  "sr = 0 \<or> ch = 0 \<or> bits = 0 \<Longrightarrow>
     calculateDuration n sr ch bits =
       (if n > 44 then PosInfinity else if n = 44 then NaN else Num 0)"
  by (auto simp add: calculateDuration_def js_div_def MIN_HEADER_SIZE_def Let_def)

text \<open>
  Claim C8 at its failing input. A 44-byte buffer with valid signatures and a sample rate
  field of 0 is accepted by \<open>parseWAVHeader\<close> with the duration \<open>NaN\<close>, which is not
  \<open>\<ge> 0\<close>; the same header followed by 956 data bytes (a 1000-byte buffer, which also
  passes the size check) gets the duration \<open>Infinity\<close>. (At standard validation the header
  with the \<open>NaN\<close> duration is then valid, since \<^verbatim>\<open>NaN > 600\<close> is false: the lemma after
  the theorem.)
\<close>

theorem zero_sample_rate_duration_is_not_a_number:
  "parseWAVHeader (wav_file 1 1 0 0 16 0) =
     Inr \<lparr>fileSize = 44, audioFormat = 1, numChannels = 1, sampleRate = 0, byteRate = 0,
          blockAlign = 2, bitsPerSample = 16, fmtSize = 16, duration = NaN\<rparr>
   \<and> \<not> js_ge NaN 0
   \<and> parseWAVHeader (wav_file 1 1 0 0 16 956) =
     Inr \<lparr>fileSize = 1000, audioFormat = 1, numChannels = 1, sampleRate = 0, byteRate = 0,
          blockAlign = 2, bitsPerSample = 16, fmtSize = 16, duration = PosInfinity\<rparr>
   \<and> \<not> js_finite PosInfinity"
  by (intro conjI, rule parse_zero_rate_44, simp, rule parse_zero_rate_1000) simp

lemma nan_duration_passes_standard_validation:
  "isValid (validateWAVFormat Standard
     \<lparr>fileSize = 44, audioFormat = 1, numChannels = 1, sampleRate = 0, byteRate = 0,
      blockAlign = 2, bitsPerSample = 16, fmtSize = 16, duration = NaN\<rparr>)"
  by (simp add: validate_eval)

subsection \<open>validateAndProcess returns only valid results\<close>

lemma validateFileSize_wav_file:
  "validateFileSize (wav_file fmt ch sr br bits 956) = None"
  "validateFileSize (wav_file fmt ch sr br bits 0) = Some (WAV_file_too_small 44)"
  by (simp_all add: validateFileSize_def length_wav_file MIN_FILE_SIZE_def MAX_FILE_SIZE_def)

text \<open>
  Claim C10. Whenever \<open>validateAndProcess\<close> returns (\<open>Inr\<close>), the \<open>isValid\<close> field of its
  result is true. Every failure is a thrown error (\<open>Inl\<close>): a buffer outside the size
  limits, a header that does not parse, and a format that fails validation when auto-fix is
  off, when the conversion throws, when the converted buffer does not parse, or when the
  converted buffer fails validation again.
\<close>

theorem validateAndProcess_returns_only_valid:
  "(validateAndProcess v fx b = Inr r \<longrightarrow> result_isValid r)
   \<and> (validateFileSize b = Some e \<longrightarrow>
        validateAndProcess v fx b = Inl (WAV_validation_failed e))
   \<and> (validateFileSize b = None \<and> parseWAVHeader b = Inl e \<longrightarrow>
        validateAndProcess v fx b = Inl (WAV_validation_failed e))
   \<and> (validateFileSize b = None \<and> parseWAVHeader b = Inr h
        \<and> \<not> isValid (validateWAVFormat (validationLevel v) h) \<longrightarrow>
        (\<not> autoFix v \<longrightarrow>
           validateAndProcess v fx b =
             Inl (WAV_validation_failed
                    (Format_rejected (errors (validateWAVFormat (validationLevel v) h)))))
        \<and> (autoFix v \<and> fx b = Inl m \<longrightarrow>
             validateAndProcess v fx b = Inl (WAV_validation_failed (Conversion_failed m)))
        \<and> (autoFix v \<and> fx b = Inr p \<and> parseWAVHeader p = Inl e \<longrightarrow>
             validateAndProcess v fx b = Inl (WAV_validation_failed e))
        \<and> (autoFix v \<and> fx b = Inr p \<and> parseWAVHeader p = Inr h'
             \<and> \<not> isValid (validateWAVFormat (validationLevel v) h') \<longrightarrow>
             validateAndProcess v fx b = Inl (WAV_validation_failed Could_not_be_corrected)))"
  by (auto simp add: validateAndProcess_def Let_def split: option.splits sum.splits if_splits)


lemma parse_all_zero:
  "parseWAVHeader (0 # replicate 999 0) = Inl (Header_parsing_failed Invalid_RIFF_signature)"
  by (simp add: parseWAVHeader_def MIN_HEADER_SIZE_def subarray_def RIFF_SIGNATURE_def)

lemma validateFileSize_all_zero: "validateFileSize (0 # replicate 999 0) = None"
  by (simp add: validateFileSize_def MIN_FILE_SIZE_def MAX_FILE_SIZE_def)

lemma validate_good:
  "isValid (validateWAVFormat Standard
     \<lparr>fileSize = 1000, audioFormat = 1, numChannels = 1, sampleRate = 16000,
      byteRate = 32000, blockAlign = 2, bitsPerSample = 16, fmtSize = 16,
      duration = Num (239 / 8000)\<rparr>)"
  by (simp add: validate_eval)

lemma validate_float_format:
  "validateWAVFormat Standard
     \<lparr>fileSize = 1000, audioFormat = 3, numChannels = 1, sampleRate = 16000,
      byteRate = 32000, blockAlign = 2, bitsPerSample = 16, fmtSize = 16,
      duration = Num (239 / 8000)\<rparr>
   = \<lparr>isValid = False, errors = [Unsupported_audio_format 3], warnings = [],
      requiresFix = True\<rparr>"
  by (simp add: validate_eval)

lemma validateAndProcess_good:
  "validateAndProcess \<lparr>validationLevel = Standard, autoFix = True\<rparr> fx
     (wav_file 1 1 16000 32000 16 956)
   = Inr \<lparr>result_isValid = True, processedBuffer = wav_file 1 1 16000 32000 16 956,
          metadata = \<lparr>headerInfo =
              \<lparr>fileSize = 1000, audioFormat = 1, numChannels = 1, sampleRate = 16000,
               byteRate = 32000, blockAlign = 2, bitsPerSample = 16, fmtSize = 16,
               duration = Num (239 / 8000)\<rparr>,
            wasProcessed = False, originalSize = 1000, finalSize = 1000\<rparr>\<rparr>"
  by (simp add: validateAndProcess_def validateFileSize_wav_file parse_good validate_good
      length_wav_file del: One_nat_def)

theorem validateAndProcess_returns_only_valid_witness:
  "validateAndProcess \<lparr>validationLevel = Standard, autoFix = True\<rparr> (\<lambda>b. Inr b)
        (wav_file 1 1 16000 32000 16 956)
       = Inr \<lparr>result_isValid = True, processedBuffer = wav_file 1 1 16000 32000 16 956,
          metadata = \<lparr>headerInfo =
              \<lparr>fileSize = 1000, audioFormat = 1, numChannels = 1, sampleRate = 16000,
               byteRate = 32000, blockAlign = 2, bitsPerSample = 16, fmtSize = 16,
               duration = Num (239 / 8000)\<rparr>,
            wasProcessed = False, originalSize = 1000, finalSize = 1000\<rparr>\<rparr>
   \<and> result_isValid
     \<lparr>result_isValid = True, processedBuffer = wav_file 1 1 16000 32000 16 956,
      metadata = \<lparr>headerInfo =
          \<lparr>fileSize = 1000, audioFormat = 1, numChannels = 1, sampleRate = 16000,
           byteRate = 32000, blockAlign = 2, bitsPerSample = 16, fmtSize = 16,
           duration = Num (239 / 8000)\<rparr>,
        wasProcessed = False, originalSize = 1000, finalSize = 1000\<rparr>\<rparr>
   \<and> validateAndProcess \<lparr>validationLevel = Standard, autoFix = True\<rparr> (\<lambda>b. Inr b)
        (wav_file 1 1 16000 32000 16 0)
       = Inl (WAV_validation_failed (WAV_file_too_small 44))
   \<and> validateAndProcess \<lparr>validationLevel = Standard, autoFix = True\<rparr> (\<lambda>b. Inr b)
        (0 # replicate 999 0)
       = Inl (WAV_validation_failed (Header_parsing_failed Invalid_RIFF_signature))
   \<and> validateAndProcess \<lparr>validationLevel = Standard, autoFix = False\<rparr> (\<lambda>b. Inr b)
        (wav_file 3 1 16000 32000 16 956)
       = Inl (WAV_validation_failed (Format_rejected [Unsupported_audio_format 3]))
   \<and> validateAndProcess \<lparr>validationLevel = Standard, autoFix = True\<rparr>
        (\<lambda>b. Inl ''ffmpeg exited with code 1'') (wav_file 3 1 16000 32000 16 956)
       = Inl (WAV_validation_failed (Conversion_failed ''ffmpeg exited with code 1''))
   \<and> validateAndProcess \<lparr>validationLevel = Standard, autoFix = True\<rparr>
        (\<lambda>b. Inr (0 # replicate 999 0)) (wav_file 3 1 16000 32000 16 956)
       = Inl (WAV_validation_failed (Header_parsing_failed Invalid_RIFF_signature))
   \<and> validateAndProcess \<lparr>validationLevel = Standard, autoFix = True\<rparr> (\<lambda>b. Inr b)
        (wav_file 3 1 16000 32000 16 956)
       = Inl (WAV_validation_failed Could_not_be_corrected)"
proof -
  let ?on = "\<lparr>validationLevel = Standard, autoFix = True\<rparr>"
  let ?off = "\<lparr>validationLevel = Standard, autoFix = False\<rparr>"
  let ?good = "wav_file 1 1 16000 32000 16 956"
  let ?float = "wav_file 3 1 16000 32000 16 956"
  let ?junk = "0 # replicate 999 0 :: buffer"
  let ?hfloat = "\<lparr>fileSize = 1000, audioFormat = 3, numChannels = 1, sampleRate = 16000,
      byteRate = 32000, blockAlign = 2, bitsPerSample = 16, fmtSize = 16,
      duration = Num (239 / 8000)\<rparr>"
  note T = validateAndProcess_returns_only_valid
  note returned = T [THEN conjunct1, rule_format]
  note bad_size = T [THEN conjunct2, THEN conjunct1, rule_format]
  note bad_header = T [THEN conjunct2, THEN conjunct2, THEN conjunct1, rule_format]
  note bad_format = T [THEN conjunct2, THEN conjunct2, THEN conjunct2, rule_format]
  have invalid: "\<not> isValid (validateWAVFormat (validationLevel ?on) ?hfloat)"
       "\<not> isValid (validateWAVFormat (validationLevel ?off) ?hfloat)"
    by (simp_all add: validate_float_format del: One_nat_def)
  have errs: "errors (validateWAVFormat (validationLevel ?off) ?hfloat)
      = [Unsupported_audio_format 3]"
    by (simp add: validate_float_format del: One_nat_def)
  have pre_on: "validateFileSize ?float = None \<and> parseWAVHeader ?float = Inr ?hfloat
      \<and> \<not> isValid (validateWAVFormat (validationLevel ?on) ?hfloat)"
    using validateFileSize_wav_file(1) parse_float_format invalid(1) by (intro conjI)
  have pre_off: "validateFileSize ?float = None \<and> parseWAVHeader ?float = Inr ?hfloat
      \<and> \<not> isValid (validateWAVFormat (validationLevel ?off) ?hfloat)"
    using validateFileSize_wav_file(1) parse_float_format invalid(2) by (intro conjI)
  have a: "result_isValid
     \<lparr>result_isValid = True, processedBuffer = ?good,
      metadata = \<lparr>headerInfo =
          \<lparr>fileSize = 1000, audioFormat = 1, numChannels = 1, sampleRate = 16000,
           byteRate = 32000, blockAlign = 2, bitsPerSample = 16, fmtSize = 16,
           duration = Num (239 / 8000)\<rparr>,
        wasProcessed = False, originalSize = 1000, finalSize = 1000\<rparr>\<rparr>"
    by (rule returned [OF validateAndProcess_good])
  have b: "validateAndProcess ?on (\<lambda>b. Inr b) (wav_file 1 1 16000 32000 16 0)
       = Inl (WAV_validation_failed (WAV_file_too_small 44))"
    by (rule bad_size [OF validateFileSize_wav_file(2)])
  have c: "validateAndProcess ?on (\<lambda>b. Inr b) ?junk
       = Inl (WAV_validation_failed (Header_parsing_failed Invalid_RIFF_signature))"
    by (rule bad_header [OF conjI [OF validateFileSize_all_zero parse_all_zero]])
  have d: "validateAndProcess ?off (\<lambda>b. Inr b) ?float
       = Inl (WAV_validation_failed (Format_rejected [Unsupported_audio_format 3]))"
    using bad_format [OF pre_off, THEN conjunct1, of "\<lambda>b. Inr b"] errs by simp
  have e: "validateAndProcess ?on (\<lambda>b. Inl ''ffmpeg exited with code 1'') ?float
       = Inl (WAV_validation_failed (Conversion_failed ''ffmpeg exited with code 1''))"
    using bad_format [OF pre_on, THEN conjunct2, THEN conjunct1,
        of "\<lambda>b. Inl ''ffmpeg exited with code 1''" "''ffmpeg exited with code 1''"]
    by simp
  have f: "validateAndProcess ?on (\<lambda>b. Inr ?junk) ?float
       = Inl (WAV_validation_failed (Header_parsing_failed Invalid_RIFF_signature))"
    using bad_format [OF pre_on, THEN conjunct2, THEN conjunct2, THEN conjunct1,
        of "\<lambda>b. Inr ?junk" ?junk "Header_parsing_failed Invalid_RIFF_signature"]
      parse_all_zero
    by simp
  have g: "validateAndProcess ?on (\<lambda>b. Inr b) ?float
       = Inl (WAV_validation_failed Could_not_be_corrected)"
    using bad_format [OF pre_on, THEN conjunct2, THEN conjunct2, THEN conjunct2,
        of "\<lambda>b. Inr b" ?float ?hfloat] parse_float_format invalid(1)
    by (simp del: One_nat_def)
  show ?thesis
    by (intro conjI) (rule validateAndProcess_good a b c d e f g)+
qed

section \<open>Properties of the transcription client\<close>

subsection \<open>HTTP status codes and the errors they stand for\<close>

lemma string_of_nat_502: "string_of_nat 502 = ''502''"
  by (simp add: string_of_nat.simps digit_char_def)

lemma string_of_nat_404: "string_of_nat 404 = ''404''"
  by (simp add: string_of_nat.simps digit_char_def)

text \<open>On ASCII text the first 200 code units are the first 200 bytes.\<close>

lemma utf16_take_ascii:
  "\<forall>c \<in> set s. (of_char c :: nat) < 128 \<Longrightarrow> utf16_take n s = take n s"
proof (induction s arbitrary: n)
  case Nil
  then show ?case by simp
next
  case (Cons c cs)
  then have l: "utf8_length c = 1" by (simp add: utf8_length_def)
  show ?case
  proof (cases n)
    case 0
    then show ?thesis by simp
  next
    case (Suc k)
    with Cons l show ?thesis by simp
  qed
qed

text \<open>
  Claim C5 as stated fails at status 502: the table has no entry for it, so the promise
  rejects with the generic message, which words no upstream-unavailable error and has the
  same shape as the message for a 404.
\<close>

theorem bad_gateway_is_not_upstream_unavailable:
  "transcribeWAVFile (\<lambda>body. Json_other) (replicate 1000 0) (Response 502 ''Bad Gateway'')
     = Inl ''API error 502: Bad Gateway''
   \<and> message_kind ''API error 502: Bad Gateway'' = None
   \<and> spec_status_kind 502 = Some UpstreamUnavailable
   \<and> transcribeWAVFile (\<lambda>body. Json_other) (replicate 1000 0) (Response 404 ''Bad Gateway'')
     = Inl ''API error 404: Bad Gateway''"
  by (simp add: transcribeWAVFile_def api_error_message_def errorMessages_def
      string_of_nat_502 string_of_nat_404 message_kind_def spec_status_kind_def
      PROCESSING_MIN_FILE_SIZE_def PROCESSING_MAX_FILE_SIZE_def utf8_length_def)

lemma errorMessages_unlisted:
  "statusCode \<notin> {400, 401, 403, 413, 429, 500, 503} \<Longrightarrow> errorMessages statusCode = None"
  by (simp add: errorMessages_def)

lemma listed_kind:
  "statusCode \<in> {400, 401, 403, 413, 429, 500, 503} \<Longrightarrow>
     message_kind (api_error_message statusCode body) = spec_status_kind statusCode"
  by (auto simp add: api_error_message_def errorMessages_def message_kind_def
      spec_status_kind_def)

text \<open>
  Claim C5, amended. For every status code other than 200 (and a buffer within the size
  limits) \<open>transcribeWAVFile\<close> rejects with \<open>api_error_message\<close>. For 400, 401, 403, 413,
  429, 500 and 503 that message is the table's and stands for the error the specification
  assigns (500 and 503 for upstream unavailable); for every other code, the other 5xx codes
  included, it is the generic \<^verbatim>\<open>API error <code>: <body.substring(0, 200)>\<close>, the first
  200 UTF-16 code units of the body.
\<close>

theorem status_code_error_mapping:
  "statusCode \<noteq> 200 \<Longrightarrow>
   PROCESSING_MIN_FILE_SIZE \<le> length audioBuffer \<Longrightarrow>
   length audioBuffer \<le> PROCESSING_MAX_FILE_SIZE \<Longrightarrow>
     transcribeWAVFile JSON_parse audioBuffer (Response statusCode body)
       = Inl (api_error_message statusCode body)
     \<and> (statusCode \<in> {400, 401, 403, 413, 429, 500, 503} \<longrightarrow>
          message_kind (api_error_message statusCode body) = spec_status_kind statusCode)
     \<and> (statusCode \<notin> {400, 401, 403, 413, 429, 500, 503} \<longrightarrow>
          api_error_message statusCode body
            = ''API error '' @ string_of_nat statusCode @ '': '' @ utf16_take 200 body)"
proof (intro conjI impI)
  assume "statusCode \<noteq> 200" "PROCESSING_MIN_FILE_SIZE \<le> length audioBuffer"
    "length audioBuffer \<le> PROCESSING_MAX_FILE_SIZE"
  then show "transcribeWAVFile JSON_parse audioBuffer (Response statusCode body)
       = Inl (api_error_message statusCode body)"
    by (simp add: transcribeWAVFile_def)
next
  assume "statusCode \<in> {400, 401, 403, 413, 429, 500, 503}"
  then show "message_kind (api_error_message statusCode body) = spec_status_kind statusCode"
    by (rule listed_kind)
next
  assume "statusCode \<notin> {400, 401, 403, 413, 429, 500, 503}"
  then have "errorMessages statusCode = None"
    by (rule errorMessages_unlisted)
  then show "api_error_message statusCode body
            = ''API error '' @ string_of_nat statusCode @ '': '' @ utf16_take 200 body"
    by (simp add: api_error_message_def)
qed

theorem status_code_error_mapping_witness:
  "transcribeWAVFile (\<lambda>body. Json_other) (replicate 1000 0) (Response 429 ''slow down'')
     = Inl ''Rate limit exceeded - please try again in a moment''
   \<and> message_kind ''Rate limit exceeded - please try again in a moment'' = Some RateLimited
   \<and> transcribeWAVFile (\<lambda>body. Json_other) (replicate 1000 0) (Response 503 ''busy'')
     = Inl ''SarvamAI service temporarily unavailable''
   \<and> message_kind ''SarvamAI service temporarily unavailable'' = Some UpstreamUnavailable
   \<and> transcribeWAVFile (\<lambda>body. Json_other) (replicate 1000 0) (Response 504 ''late'')
     = Inl ''API error 504: late''"
proof -
  have len: "PROCESSING_MIN_FILE_SIZE \<le> length (replicate 1000 (0::8 word))"
      "length (replicate 1000 (0::8 word)) \<le> PROCESSING_MAX_FILE_SIZE"
    by (simp_all add: PROCESSING_MIN_FILE_SIZE_def PROCESSING_MAX_FILE_SIZE_def)
  have s504: "string_of_nat 504 = ''504''"
    by (simp add: string_of_nat.simps digit_char_def)
  have m429: "api_error_message 429 ''slow down''
      = ''Rate limit exceeded - please try again in a moment''"
    by (simp add: api_error_message_def errorMessages_def)
  have m503: "api_error_message 503 ''busy'' = ''SarvamAI service temporarily unavailable''"
    by (simp add: api_error_message_def errorMessages_def)
  have k429: "spec_status_kind 429 = Some RateLimited"
    and k503: "spec_status_kind 503 = Some UpstreamUnavailable"
    by (simp_all add: spec_status_kind_def)
  show ?thesis
    using status_code_error_mapping [OF _ len, of 429 "\<lambda>body. Json_other" "''slow down''"]
      status_code_error_mapping [OF _ len, of 503 "\<lambda>body. Json_other" "''busy''"]
      status_code_error_mapping [OF _ len, of 504 "\<lambda>body. Json_other" "''late''"]
      m429 m503 k429 k503 s504
    by (simp add: utf8_length_def)
qed

section \<open>Properties of the message handler\<close>

lemmas config_defs = MIN_INTERVAL_def MAX_ERRORS_def COOLDOWN_TIME_def
  PROCESSING_MIN_FILE_SIZE_def PROCESSING_MAX_FILE_SIZE_def

lemmas session_eval = on_message_def finish_def on_error_def userMessage_def remove_nth_def
  initial_session_def passes_guards_def js_trim_def is_space_def is_space2_def is_space3_def
  utf8_length_def Let_def
  MIN_INTERVAL_def MAX_ERRORS_def COOLDOWN_TIME_def
  PROCESSING_MIN_FILE_SIZE_def PROCESSING_MAX_FILE_SIZE_def


lemma on_message_rate_limited:
  "now - lastProcessTime s < MIN_INTERVAL \<Longrightarrow> on_message s now msg = (s, [])"
  by (simp add: on_message_def)

lemma on_message_queues:
  "passes_guards s now msg \<Longrightarrow> isProcessing s \<Longrightarrow>
     on_message s now msg = (s\<lparr>processingQueue := [msg]\<rparr>, [])"
  by (simp add: on_message_def passes_guards_def)


lemma on_message_starts:
  "passes_guards s now msg \<Longrightarrow> \<not> isProcessing s \<Longrightarrow> consecutiveErrors s < MAX_ERRORS \<Longrightarrow>
     on_message s now msg =
       (s\<lparr>isProcessing := True, lastProcessTime := now,
          inflight := inflight s @ [(now, msg)]\<rparr>, [])"
  by (simp add: on_message_def passes_guards_def)

lemma on_message_inflight:
  "inflight (fst (on_message s now msg)) = inflight s
   \<or> (passes_guards s now msg \<and> \<not> isProcessing s \<and> consecutiveErrors s < MAX_ERRORS)"
  by (simp add: on_message_def passes_guards_def)

subsection \<open>Rate limiting\<close>

text \<open>
  Claim C4. A message received less than 1000 ms after the last processing cycle began
  (\<open>now - lastProcessTime < MIN_INTERVAL\<close>) is dropped silently: the handler returns the
  session state unchanged, sends nothing and starts no cycle. Consequently, when a message
  starts a processing cycle at \<open>ta\<close> and a second message arrives at \<open>tb\<close> less than 1000 ms
  later, the two messages together start exactly one cycle and send nothing.
\<close>

theorem rate_limited_message_is_dropped_silently:
  "(now - lastProcessTime s < MIN_INTERVAL \<longrightarrow> on_message s now msg = (s, []))
   \<and> (inflight (fst (on_message s ta ma)) \<noteq> inflight s \<and> tb - ta < MIN_INTERVAL \<longrightarrow>
        run s [Message ta ma, Message tb mb] =
          (s\<lparr>isProcessing := True, lastProcessTime := ta,
             inflight := inflight s @ [(ta, ma)]\<rparr>, []))"
proof (intro conjI impI)
  assume "now - lastProcessTime s < MIN_INTERVAL"
  then show "on_message s now msg = (s, [])"
    by (rule on_message_rate_limited)
next
  assume a: "inflight (fst (on_message s ta ma)) \<noteq> inflight s \<and> tb - ta < MIN_INTERVAL"
  let ?s1 = "s\<lparr>isProcessing := True, lastProcessTime := ta,
             inflight := inflight s @ [(ta, ma)]\<rparr>"
  from a on_message_inflight [of s ta ma]
  have "passes_guards s ta ma \<and> \<not> isProcessing s \<and> consecutiveErrors s < MAX_ERRORS"
    by blast
  then have first: "on_message s ta ma = (?s1, [])"
    by (simp add: on_message_starts)
  from a have "tb - lastProcessTime ?s1 < MIN_INTERVAL"
    by simp
  then have second: "on_message ?s1 tb mb = (?s1, [])"
    by (rule on_message_rate_limited)
  show "run s [Message ta ma, Message tb mb] = (?s1, [])"
    by (simp add: first second)
qed

theorem rate_limited_message_is_dropped_silently_witness:
  "on_message (initial_session\<lparr>isProcessing := True, lastProcessTime := 5000,
       inflight := [(5000, replicate 2000 (CHR ''A''))]\<rparr>) 5999 (replicate 2000 (CHR ''B''))
     = (initial_session\<lparr>isProcessing := True, lastProcessTime := 5000,
          inflight := [(5000, replicate 2000 (CHR ''A''))]\<rparr>, [])
   \<and> run initial_session [Message 5000 (replicate 2000 (CHR ''A'')),
                           Message 5999 (replicate 2000 (CHR ''B''))]
     = (initial_session\<lparr>isProcessing := True, lastProcessTime := 5000,
          inflight := [(5000, replicate 2000 (CHR ''A''))]\<rparr>, [])"
proof -
  let ?s = "initial_session\<lparr>isProcessing := True, lastProcessTime := 5000,
       inflight := [(5000, replicate 2000 (CHR ''A''))]\<rparr>"
  have a: "5999 - lastProcessTime ?s < MIN_INTERVAL"
    by (simp add: MIN_INTERVAL_def)
  have b: "inflight (fst (on_message initial_session 5000 (replicate 2000 (CHR ''A''))))
      \<noteq> inflight initial_session \<and> (5999::int) - 5000 < MIN_INTERVAL"
    by (simp add: on_message_def initial_session_def config_defs)
  have c: "inflight initial_session = []"
    by (simp add: initial_session_def)
  show ?thesis
    using rate_limited_message_is_dropped_silently
            [where now = 5999 and s = ?s, THEN conjunct1, rule_format, OF a]
          rate_limited_message_is_dropped_silently
            [where s = initial_session and ta = 5000 and ma = "replicate 2000 (CHR ''A'')"
               and tb = 5999, THEN conjunct2, rule_format, OF b]
          c
    by simp
qed


subsection \<open>Cooldown after consecutive errors\<close>













text \<open>Five failing cycles in a row bring the session to the threshold.\<close>

lemma five_failures:
  "run initial_session
     [Message 10000 (replicate 1000 (CHR ''A'')), Complete 10200 0 (Pipeline_failed ''boom''),
      Message 12000 (replicate 1000 (CHR ''A'')), Complete 12200 0 (Pipeline_failed ''boom''),
      Message 14000 (replicate 1000 (CHR ''A'')), Complete 14200 0 (Pipeline_failed ''boom''),
      Message 16000 (replicate 1000 (CHR ''A'')), Complete 16200 0 (Pipeline_failed ''boom''),
      Message 18000 (replicate 1000 (CHR ''A'')), Complete 18200 0 (Pipeline_failed ''boom'')]
   = (initial_session\<lparr>lastProcessTime := 18000, consecutiveErrors := 5\<rparr>,
      [Error_technical ''Transcription failed'' ''boom'',
       Error_technical ''Transcription failed'' ''boom'',
       Error_technical ''Transcription failed'' ''boom'',
       Error_technical ''Transcription failed'' ''boom'',
       Error_technical ''Transcription failed'' ''boom''])"
  by (simp add: session_eval)



subsection \<open>The queue of one\<close>

text \<open>
  Claim C3 as stated fails. Three messages that arrive within a second of the start of a
  processing cycle are dropped by the rate limiter, which comes before the queue: nothing is
  queued. And a message under 1000 bytes that arrives while a message is queued is dropped
  by the size guard: the queue keeps the earlier message, not the last one received.
\<close>

theorem messages_during_processing_are_not_all_queued:
  "run initial_session
     [Message 5000 (replicate 1000 (CHR ''A'')), Message 5200 (replicate 1000 (CHR ''B'')),
      Message 5400 (replicate 1000 (CHR ''C'')), Message 5600 (replicate 1000 (CHR ''D''))]
     = (initial_session\<lparr>isProcessing := True, lastProcessTime := 5000,
          processingQueue := [], inflight := [(5000, replicate 1000 (CHR ''A''))]\<rparr>, [])
   \<and> run initial_session
     [Message 5000 (replicate 1000 (CHR ''A'')), Message 7000 (replicate 1000 (CHR ''B'')),
      Message 8000 (replicate 10 (CHR ''C''))]
     = (initial_session\<lparr>isProcessing := True, lastProcessTime := 5000,
          processingQueue := [replicate 1000 (CHR ''B'')],
          inflight := [(5000, replicate 1000 (CHR ''A''))]\<rparr>, [])"
  by (simp add: session_eval)

lemma on_message_queue_length:
  "length (processingQueue s) \<le> Suc 0 \<Longrightarrow> length (processingQueue (fst (on_message s now msg))) \<le> Suc 0"
  by (simp add: on_message_def)

lemma finish_queue_empty_or_same:
  "processingQueue (fst (finish s now started r)) = []
   \<or> processingQueue (fst (finish s now started r)) = processingQueue s"
  by (cases r) (simp_all add: finish_def on_error_def Let_def)

lemma finish_queue_length:
  "length (processingQueue s) \<le> Suc 0 \<Longrightarrow>
     length (processingQueue (fst (finish s now started r))) \<le> Suc 0"
  using finish_queue_empty_or_same [of s now started r] by auto

lemma fire_queue_length:
  "length (processingQueue s) \<le> Suc 0 \<Longrightarrow> length (processingQueue (fst (fire s now cb))) \<le> Suc 0"
  by (cases cb) (simp_all add: on_message_queue_length)

lemma step_queue_length:
  "length (processingQueue s) \<le> Suc 0 \<Longrightarrow> length (processingQueue (fst (step s e))) \<le> Suc 0"
proof (cases e)
  case (Message now msg)
  assume "length (processingQueue s) \<le> Suc 0"
  with Message show ?thesis by (simp add: on_message_queue_length)
next
  case (Complete now k r)
  assume "length (processingQueue s) \<le> Suc 0"
  with Complete show ?thesis by (simp add: finish_queue_length)
next
  case (Timer now k)
  assume "length (processingQueue s) \<le> Suc 0"
  with Timer show ?thesis by (simp add: fire_queue_length)
next
  case Close
  then show ?thesis by simp
next
  case Socket_error
  then show ?thesis by simp
qed

lemma run_queue_length:
  "length (processingQueue s) \<le> Suc 0 \<Longrightarrow> length (processingQueue (fst (run s evs))) \<le> Suc 0"
proof (induction evs arbitrary: s)
  case Nil
  then show ?case by simp
next
  case (Cons e evs)
  from Cons.prems have "length (processingQueue (fst (step s e))) \<le> Suc 0"
    by (rule step_queue_length)
  then have "length (processingQueue (fst (run (fst (step s e)) evs))) \<le> Suc 0"
    by (rule Cons.IH)
  then show ?case
    by (simp add: case_prod_beta)
qed

lemma passes_guards_queue:
  "passes_guards (s\<lparr>processingQueue := q\<rparr>) now msg = passes_guards s now msg"
  by (simp add: passes_guards_def)

lemma queue_keeps_last:
  "isProcessing s \<Longrightarrow> ms \<noteq> [] \<Longrightarrow> \<forall>(t, m) \<in> set ms. passes_guards s t m \<Longrightarrow>
     run s (map (\<lambda>(t, m). Message t m) ms) = (s\<lparr>processingQueue := [snd (last ms)]\<rparr>, [])"
proof (induction ms arbitrary: s)
  case Nil
  then show ?case by simp
next
  case (Cons x ms)
  obtain t m where x: "x = (t, m)" by (cases x)
  let ?s1 = "s\<lparr>processingQueue := [m]\<rparr>"
  from Cons.prems x have first: "on_message s t m = (?s1, [])"
    by (simp add: on_message_queues)
  show ?case
  proof (cases "ms = []")
    case True
    then show ?thesis by (simp add: x first)
  next
    case False
    from Cons.prems have "run ?s1 (map (\<lambda>(t, m). Message t m) ms) =
        (?s1\<lparr>processingQueue := [snd (last ms)]\<rparr>, [])"
      by (intro Cons.IH False) (auto simp add: passes_guards_queue)
    with False show ?thesis by (simp add: x first)
  qed
qed

lemma finish_dispatches_queue:
  "processingQueue s = [queued] \<Longrightarrow>
     processingQueue (fst (finish s now started r)) = []
     \<and> \<not> isProcessing (fst (finish s now started r))
     \<and> last (timers (fst (finish s now started r))) = (now + 500, Redeliver queued)"
  by (cases r) (simp_all add: finish_def on_error_def Let_def)

text \<open>
  Claim C3, amended. In every state reachable from the initial one the queue holds at most
  one message. While the session is processing, every message that gets past the guards
  that precede the queue (not empty, at least 1000 ms after the start of the last cycle,
  between 1000 bytes and 50 MiB) replaces the queued message, so any non-empty sequence of
  such messages leaves exactly the last one queued. When a processing cycle ends, with a
  transcript or with an error, a queued message is taken from the queue and a timer due
  500 ms later is set to deliver it to the message handler again, which it does if the
  socket is still open.
\<close>

theorem queue_holds_only_the_latest_accepted_message:
  "length (processingQueue (fst (run initial_session evs))) \<le> 1
   \<and> (isProcessing s \<and> passes_guards s now msg \<longrightarrow>
        on_message s now msg = (s\<lparr>processingQueue := [msg]\<rparr>, []))
   \<and> (isProcessing s \<and> ms \<noteq> [] \<and> (\<forall>(t, m) \<in> set ms. passes_guards s t m) \<longrightarrow>
        run s (map (\<lambda>(t, m). Message t m) ms) = (s\<lparr>processingQueue := [snd (last ms)]\<rparr>, []))
   \<and> (processingQueue s = [queued] \<longrightarrow>
        processingQueue (fst (finish s now started r)) = []
        \<and> \<not> isProcessing (fst (finish s now started r))
        \<and> last (timers (fst (finish s now started r))) = (now + 500, Redeliver queued))
   \<and> (readyOpen s \<longrightarrow> fire s now (Redeliver queued) = on_message s now queued)"
proof (intro conjI impI; (elim conjE)?)
  show "length (processingQueue (fst (run initial_session evs))) \<le> 1"
    using run_queue_length [of initial_session evs] by (simp add: initial_session_def)
next
  assume "isProcessing s" "passes_guards s now msg"
  then show "on_message s now msg = (s\<lparr>processingQueue := [msg]\<rparr>, [])"
    by (simp add: on_message_queues)
next
  assume "isProcessing s" "ms \<noteq> []" "\<forall>(t, m) \<in> set ms. passes_guards s t m"
  then show "run s (map (\<lambda>(t, m). Message t m) ms) = (s\<lparr>processingQueue := [snd (last ms)]\<rparr>, [])"
    by (rule queue_keeps_last)
next
  assume q: "processingQueue s = [queued]"
  from finish_dispatches_queue [OF q, of now started r]
  show "processingQueue (fst (finish s now started r)) = []"
    and "\<not> isProcessing (fst (finish s now started r))"
    and "last (timers (fst (finish s now started r))) = (now + 500, Redeliver queued)"
    by simp_all
next
  assume "readyOpen s"
  then show "fire s now (Redeliver queued) = on_message s now queued"
    by simp
qed


theorem queue_holds_only_the_latest_accepted_message_witness:
  "length (processingQueue (fst (run initial_session
      [Message 5000 (replicate 1000 (CHR ''A'')), Message 7000 (replicate 1000 (CHR ''B'')),
       Message 8000 (replicate 1000 (CHR ''C''))]))) \<le> 1
   \<and> on_message (initial_session\<lparr>isProcessing := True, lastProcessTime := 5000\<rparr>) 7000
        (replicate 1000 (CHR ''B''))
     = (initial_session\<lparr>isProcessing := True, lastProcessTime := 5000,
          processingQueue := [replicate 1000 (CHR ''B'')]\<rparr>, [])
   \<and> run (initial_session\<lparr>isProcessing := True, lastProcessTime := 5000\<rparr>)
        [Message 7000 (replicate 1000 (CHR ''B'')), Message 8000 (replicate 1000 (CHR ''C'')),
         Message 9000 (replicate 1000 (CHR ''D''))]
     = (initial_session\<lparr>isProcessing := True, lastProcessTime := 5000,
          processingQueue := [replicate 1000 (CHR ''D'')]\<rparr>, [])
   \<and> processingQueue (fst (finish (initial_session\<lparr>isProcessing := True,
          lastProcessTime := 5000, processingQueue := [replicate 1000 (CHR ''D'')]\<rparr>)
          9500 5000 (Transcribed ''namaste''))) = []
   \<and> last (timers (fst (finish (initial_session\<lparr>isProcessing := True,
          lastProcessTime := 5000, processingQueue := [replicate 1000 (CHR ''D'')]\<rparr>)
          9500 5000 (Transcribed ''namaste'')))) = (10000, Redeliver (replicate 1000 (CHR ''D'')))
   \<and> fire initial_session 10000 (Redeliver (replicate 1000 (CHR ''D'')))
     = on_message initial_session 10000 (replicate 1000 (CHR ''D''))"
proof -
  let ?s = "initial_session\<lparr>isProcessing := True, lastProcessTime := 5000\<rparr>"
  let ?q = "initial_session\<lparr>isProcessing := True, lastProcessTime := 5000,
      processingQueue := [replicate 1000 (CHR ''D'')]\<rparr>"
  let ?ms = "[(7000, replicate 1000 (CHR ''B'')), (8000, replicate 1000 (CHR ''C'')),
      (9000, replicate 1000 (CHR ''D''))]"
  note T = queue_holds_only_the_latest_accepted_message
  have one: "isProcessing ?s \<and> passes_guards ?s 7000 (replicate 1000 (CHR ''B''))"
    by (simp add: session_eval)
  have many: "isProcessing ?s \<and> ?ms \<noteq> [] \<and> (\<forall>(t, m) \<in> set ?ms. passes_guards ?s t m)"
    by (simp add: session_eval)
  have queued: "processingQueue ?q = [replicate 1000 (CHR ''D'')]"
    by simp
  have opened: "readyOpen initial_session"
    by (simp add: initial_session_def)
  note dispatched = T [THEN conjunct2, THEN conjunct2, THEN conjunct2, THEN conjunct1,
      THEN mp, OF queued, of 9500 5000 "Transcribed ''namaste''"]
  show ?thesis
    using T [THEN conjunct1, of "[Message 5000 (replicate 1000 (CHR ''A'')),
          Message 7000 (replicate 1000 (CHR ''B'')), Message 8000 (replicate 1000 (CHR ''C''))]"]
      T [THEN conjunct2, THEN conjunct1, THEN mp, OF one]
      T [THEN conjunct2, THEN conjunct2, THEN conjunct1, THEN mp, OF many]
      dispatched
      T [THEN conjunct2, THEN conjunct2, THEN conjunct2, THEN conjunct2, THEN mp, OF opened,
         of 10000 "replicate 1000 (CHR ''D'')"]
    by simp
qed


subsection \<open>The error counter after a successful cycle\<close>

text \<open>
  A cycle that ends with a transcript that is not blank resets the counter; one that ends
  with an empty or blank transcript sends the empty result and leaves the counter as it was.
\<close>

lemma finish_transcript_resets:
  "js_trim transcript \<noteq> [] \<Longrightarrow>
     consecutiveErrors (fst (finish s now started (Transcribed transcript))) = 0
     \<and> snd (finish s now started (Transcribed transcript))
         = [Transcript_result (js_trim transcript) (now - started)]"
  by (auto simp add: finish_def Let_def js_trim_def)

lemma finish_empty_transcript_keeps_count:
  "js_trim transcript = [] \<Longrightarrow>
     consecutiveErrors (fst (finish s now started (Transcribed transcript))) = consecutiveErrors s
     \<and> snd (finish s now started (Transcribed transcript))
         = [Transcript_message [] ''No speech detected in audio'']"
  by (simp add: finish_def Let_def)

text \<open>
  Claim C1 at its failing input. A 200 response without a transcript resolves to the empty
  transcript. A cycle that ends with it in a session with 4 consecutive errors sends the
  empty result and leaves the counter at 4. So four failures, an empty success and one more
  failure put the session into cooldown: the next message is rejected.
\<close>

theorem empty_transcript_leaves_error_count:
  "transcribeWAVFile (\<lambda>body. Json_other) (replicate 1000 0) (Response 200 ''{}'') = Inr []
   \<and> finish (initial_session\<lparr>isProcessing := True, lastProcessTime := 20000,
         consecutiveErrors := 4\<rparr>) 20300 20000 (Transcribed [])
     = (initial_session\<lparr>lastProcessTime := 20000, consecutiveErrors := 4\<rparr>,
        [Transcript_message [] ''No speech detected in audio''])
   \<and> run initial_session
     [Message 10000 (replicate 1000 (CHR ''A'')), Complete 10200 0 (Pipeline_failed ''boom''),
      Message 12000 (replicate 1000 (CHR ''A'')), Complete 12200 0 (Pipeline_failed ''boom''),
      Message 14000 (replicate 1000 (CHR ''A'')), Complete 14200 0 (Pipeline_failed ''boom''),
      Message 16000 (replicate 1000 (CHR ''A'')), Complete 16200 0 (Pipeline_failed ''boom''),
      Message 20000 (replicate 1000 (CHR ''A'')), Complete 20300 0 (Transcribed []),
      Message 22000 (replicate 1000 (CHR ''A'')), Complete 22300 0 (Pipeline_failed ''boom''),
      Message 24000 (replicate 1000 (CHR ''A''))]
     = (initial_session\<lparr>lastProcessTime := 22000, consecutiveErrors := 5,
          timers := [(54000, Reset_errors)]\<rparr>,
        [Error_technical ''Transcription failed'' ''boom'',
         Error_technical ''Transcription failed'' ''boom'',
         Error_technical ''Transcription failed'' ''boom'',
         Error_technical ''Transcription failed'' ''boom'',
         Transcript_message [] ''No speech detected in audio'',
         Error_technical ''Transcription failed'' ''boom'',
         Error_only ''Service temporarily unavailable due to errors''])"
  by (simp add: session_eval transcribeWAVFile_def)

section \<open>Properties of mock mode\<close>

lemma mock_run_Cons:
  "mock_run s (e # es) =
     (fst (mock_run (fst (mock_step s e)) es),
      snd (mock_step s e) @ snd (mock_run (fst (mock_step s e)) es))"
  by (simp add: case_prod_beta)

lemma mock_run_invariant:
  "mock_open s \<Longrightarrow> Mock_close \<notin> set evs \<Longrightarrow>
     mock_open (fst (mock_run s evs))
     \<and> mockIndex s \<le> mockIndex (fst (mock_run s evs))
     \<and> snd (mock_run s evs) = map mock_reply [mockIndex s ..< mockIndex (fst (mock_run s evs))]
     \<and> mock_timers (fst (mock_run s evs))
         = drop (mockIndex (fst (mock_run s evs)) - mockIndex s)
             (mock_timers s @ map (\<lambda>t. t + 1500) (arrivals evs))
     \<and> mockIndex (fst (mock_run s evs)) - mockIndex s
         \<le> length (mock_timers s) + length (arrivals evs)"
proof (induction evs arbitrary: s)
  case Nil
  then show ?case by simp
next
  case (Cons e es)
  from Cons.prems have es: "Mock_close \<notin> set es" by simp
  show ?case
  proof (cases e)
    case (Mock_message now msg)
    let ?s1 = "s\<lparr>mock_timers := mock_timers s @ [now + 1500]\<rparr>"
    have st: "mock_step s (Mock_message now msg) = (?s1, [])"
      by (simp add: Mock_message mock_on_message_def)
    have "mock_open ?s1" using Cons.prems by simp
    from Cons.IH [OF this es] show ?thesis
      by (simp add: mock_run_Cons st Mock_message del: mock_run.simps mock_step.simps)
  next
    case (Mock_timer now)
    show ?thesis
    proof (cases "mock_timers s")
      case Nil
      then have st: "mock_step s (Mock_timer now) = (s, [])"
        by (simp add: Mock_timer)
      from Cons.IH [OF Cons.prems(1) es] show ?thesis
        by (simp add: mock_run_Cons st Mock_timer del: mock_run.simps mock_step.simps)
    next
      case (Cons due rest)
      show ?thesis
      proof (cases "due \<le> now")
        case False
        with Cons have st: "mock_step s (Mock_timer now) = (s, [])"
          by (simp add: Mock_timer)
        from Cons.IH [OF Cons.prems(1) es] show ?thesis
          by (simp add: mock_run_Cons st Mock_timer del: mock_run.simps mock_step.simps)
      next
        case True
        let ?s1 = "s\<lparr>mock_timers := rest, mockIndex := Suc (mockIndex s)\<rparr>"
        from True Cons Cons.prems(1) have st: "mock_step s (Mock_timer now) = (?s1, [mock_reply (mockIndex s)])"
          by (simp add: Mock_timer mock_timeout_def mock_reply_def)
        have op: "mock_open ?s1" using Cons.prems by simp
        from Cons.IH [OF op es]
        have ih: "mock_open (fst (mock_run ?s1 es))"
          "Suc (mockIndex s) \<le> mockIndex (fst (mock_run ?s1 es))"
          "snd (mock_run ?s1 es) = map mock_reply [Suc (mockIndex s) ..< mockIndex (fst (mock_run ?s1 es))]"
          "mock_timers (fst (mock_run ?s1 es))
             = drop (mockIndex (fst (mock_run ?s1 es)) - Suc (mockIndex s))
                 (rest @ map (\<lambda>t. t + 1500) (arrivals es))"
          "mockIndex (fst (mock_run ?s1 es)) - Suc (mockIndex s)
             \<le> length rest + length (arrivals es)"
          by simp_all
        let ?i' = "mockIndex (fst (mock_run ?s1 es))"
        from ih(2) have lt: "mockIndex s < ?i'" by simp
        then have d: "?i' - mockIndex s = Suc (?i' - Suc (mockIndex s))" by simp
        have up: "[mockIndex s ..< ?i'] = mockIndex s # [Suc (mockIndex s) ..< ?i']"
          using lt by (rule upt_conv_Cons)
        have res: "fst (mock_run s (e # es)) = fst (mock_run ?s1 es)"
          "snd (mock_run s (e # es)) = mock_reply (mockIndex s) # snd (mock_run ?s1 es)"
          by (simp_all add: mock_run_Cons st Mock_timer del: mock_run.simps mock_step.simps)
        have tm: "mock_timers s @ map (\<lambda>t. t + 1500) (arrivals (e # es))
            = due # (rest @ map (\<lambda>t. t + 1500) (arrivals es))"
          by (simp add: Cons Mock_timer)
        show ?thesis
          unfolding res
        proof (intro conjI)
          show "mock_open (fst (mock_run ?s1 es))" by (rule ih(1))
          show "mockIndex s \<le> ?i'" using lt by simp
          show "mock_reply (mockIndex s) # snd (mock_run ?s1 es) = map mock_reply [mockIndex s ..< ?i']"
            by (subst up) (simp add: ih(3))
          show "mock_timers (fst (mock_run ?s1 es))
              = drop (?i' - mockIndex s) (mock_timers s @ map (\<lambda>t. t + 1500) (arrivals (e # es)))"
            unfolding tm d by (simp only: drop_Suc_Cons ih(4))
          show "?i' - mockIndex s \<le> length (mock_timers s) + length (arrivals (e # es))"
            using ih(5) lt by (simp add: Cons Mock_timer)
        qed
      qed
    qed
  next
    case Mock_close
    with Cons.prems show ?thesis by simp
  qed
qed


lemma mock_run_append:
  "mock_run s (xs @ ys) =
     (fst (mock_run (fst (mock_run s xs)) ys),
      snd (mock_run s xs) @ snd (mock_run (fst (mock_run s xs)) ys))"
  by (induction xs arbitrary: s) (simp_all add: case_prod_beta)

lemma mock_drain:
  "mock_open s \<Longrightarrow> \<forall>d \<in> set (mock_timers s). d \<le> now \<Longrightarrow>
     mock_run s (replicate (length (mock_timers s)) (Mock_timer now)) =
       (s\<lparr>mock_timers := [], mockIndex := mockIndex s + length (mock_timers s)\<rparr>,
        map mock_reply [mockIndex s ..< mockIndex s + length (mock_timers s)])"
proof (induction "mock_timers s" arbitrary: s)
  case Nil
  then show ?case by simp
next
  case (Cons due rest)
  let ?s1 = "s\<lparr>mock_timers := rest, mockIndex := Suc (mockIndex s)\<rparr>"
  from Cons.hyps(2) [symmetric] Cons.prems
  have st: "mock_step s (Mock_timer now) = (?s1, [mock_reply (mockIndex s)])"
    by (simp add: mock_timeout_def)
  have "rest = mock_timers ?s1" by simp
  moreover have "mock_open ?s1" using Cons.prems by simp
  moreover have "\<forall>d \<in> set (mock_timers ?s1). d \<le> now"
    using Cons.prems Cons.hyps(2) [symmetric] by simp
  ultimately have ih: "mock_run ?s1 (replicate (length (mock_timers ?s1)) (Mock_timer now)) =
       (?s1\<lparr>mock_timers := [], mockIndex := mockIndex ?s1 + length (mock_timers ?s1)\<rparr>,
        map mock_reply [mockIndex ?s1 ..< mockIndex ?s1 + length (mock_timers ?s1)])"
    by (rule Cons.hyps(1))
  have up: "[mockIndex s ..< Suc (mockIndex s + length rest)]
      = mockIndex s # [Suc (mockIndex s) ..< Suc (mockIndex s + length rest)]"
    by (rule upt_conv_Cons) simp
  have len: "length (mock_timers s) = Suc (length rest)"
    using Cons.hyps(2) [symmetric] by simp
  show ?case
    unfolding len
    using ih by (simp add: st up del: mock_step.simps upt_Suc)
qed

lemma mock_transcripts_length: "length MOCK_TRANSCRIPTS = 4"
  by (simp add: MOCK_TRANSCRIPTS_def)

lemma mock_transcripts_neighbours_differ:
  "MOCK_TRANSCRIPT_0 \<noteq> MOCK_TRANSCRIPT_1" "MOCK_TRANSCRIPT_1 \<noteq> MOCK_TRANSCRIPT_2"
  "MOCK_TRANSCRIPT_2 \<noteq> MOCK_TRANSCRIPT_3" "MOCK_TRANSCRIPT_3 \<noteq> MOCK_TRANSCRIPT_0"
  by (simp_all add: MOCK_TRANSCRIPT_0_def MOCK_TRANSCRIPT_1_def MOCK_TRANSCRIPT_2_def
      MOCK_TRANSCRIPT_3_def)

lemma mock_reply_successive_differ: "mock_reply k \<noteq> mock_reply (Suc k)"
proof -
  have "k mod 4 = 0 \<or> k mod 4 = 1 \<or> k mod 4 = 2 \<or> k mod 4 = 3"
    by arith
  then show ?thesis
    using mock_transcripts_neighbours_differ
    by (auto simp add: mock_reply_def MOCK_TRANSCRIPTS_def mod_Suc)
qed


lemma mock_run_from_initial:
  assumes "Mock_close \<notin> set evs"
  shows "mock_open (fst (mock_run initial_mock evs))"
    and "snd (mock_run initial_mock evs)
           = map mock_reply [0 ..< mockIndex (fst (mock_run initial_mock evs))]"
    and "mockIndex (fst (mock_run initial_mock evs)) \<le> length (arrivals evs)"
    and "mock_timers (fst (mock_run initial_mock evs))
           = drop (mockIndex (fst (mock_run initial_mock evs)))
               (map (\<lambda>t. t + 1500) (arrivals evs))"
  using mock_run_invariant [of initial_mock evs] assms
  by (simp_all add: initial_mock_def)

lemma mock_all_answered:
  assumes "Mock_close \<notin> set evs" and "\<forall>t \<in> set (arrivals evs). t + 1500 \<le> later"
  shows "snd (mock_run initial_mock
            (evs @ replicate (length (mock_timers (fst (mock_run initial_mock evs))))
                     (Mock_timer later)))
         = map mock_reply [0 ..< length (arrivals evs)]"
proof -
  let ?s = "fst (mock_run initial_mock evs)"
  note inv = mock_run_from_initial [OF assms(1)]
  have due: "\<forall>d \<in> set (mock_timers ?s). d \<le> later"
  proof
    fix d assume "d \<in> set (mock_timers ?s)"
    then have "d \<in> set (map (\<lambda>t. t + 1500) (arrivals evs))"
      unfolding inv(4) by (rule in_set_dropD)
    with assms(2) show "d \<le> later" by auto
  qed
  have len: "mockIndex ?s + length (mock_timers ?s) = length (arrivals evs)"
    using inv(3) by (simp add: inv(4))
  have "snd (mock_run ?s (replicate (length (mock_timers ?s)) (Mock_timer later)))
      = map mock_reply [mockIndex ?s ..< mockIndex ?s + length (mock_timers ?s)]"
    by (simp add: mock_drain [OF inv(1) due])
  then have "snd (mock_run initial_mock
            (evs @ replicate (length (mock_timers ?s)) (Mock_timer later)))
      = map mock_reply [0 ..< mockIndex ?s]
        @ map mock_reply [mockIndex ?s ..< mockIndex ?s + length (mock_timers ?s)]"
    by (simp add: mock_run_append inv(2) [symmetric])
  also have "\<dots> = map mock_reply [0 ..< mockIndex ?s + length (mock_timers ?s)]"
  proof -
    have "[0 ..< mockIndex ?s + length (mock_timers ?s)]
        = [0 ..< mockIndex ?s] @ [mockIndex ?s ..< mockIndex ?s + length (mock_timers ?s)]"
      by (rule upt_add_eq_append) simp
    then show ?thesis by (simp only: map_append)
  qed
  finally show ?thesis
    by (simp only: len)
qed

text \<open>
  Claim C9. In mock mode the handler applies no check to a message: whatever its size and
  arrival time, it only sets a timer due 1500 ms later. The reply for \<^verbatim>\<open>mockIndex\<close> \<open>k\<close> is
  the phrase at \<open>k mod 4\<close> of the four canned phrases, and successive replies differ. The
  oldest pending timer does nothing before it is due; once it is due and the socket is open
  it sends the reply for the current \<^verbatim>\<open>mockIndex\<close> and increments it. For
  every sequence of messages and timer expiries on a connection that stays open, the replies
  sent so far are the phrases \<open>0, 1, 2, \<dots>\<close> (mod 4) in order, one for each of the first
  \<^verbatim>\<open>mockIndex\<close> messages, nothing else is sent, and the remaining messages have their timers
  pending, due 1500 ms after their arrival; once those are due and have fired, the \<open>n\<close>
  messages have received exactly the replies \<open>0 \<dots> n - 1\<close>, the \<open>n\<close>-th message phrase
  \<open>(n - 1) mod 4\<close>.
\<close>

theorem mock_mode_answers_round_robin:
  "mock_on_message s now msg = (s\<lparr>mock_timers := mock_timers s @ [now + 1500]\<rparr>, [])
   \<and> mock_reply k = Transcript_only (MOCK_TRANSCRIPTS ! (k mod 4))
   \<and> mock_reply k \<noteq> mock_reply (Suc k)
   \<and> (mock_timers s = due # rest \<and> now < due \<longrightarrow>
        mock_step s (Mock_timer now) = (s, []))
   \<and> (mock_timers s = due # rest \<and> due \<le> now \<and> mock_open s \<longrightarrow>
        mock_step s (Mock_timer now)
          = (s\<lparr>mock_timers := rest, mockIndex := mockIndex s + 1\<rparr>,
             [mock_reply (mockIndex s)]))
   \<and> (Mock_close \<notin> set evs \<longrightarrow>
        snd (mock_run initial_mock evs)
          = map mock_reply [0 ..< mockIndex (fst (mock_run initial_mock evs))]
        \<and> mockIndex (fst (mock_run initial_mock evs)) \<le> length (arrivals evs)
        \<and> mock_timers (fst (mock_run initial_mock evs))
          = drop (mockIndex (fst (mock_run initial_mock evs)))
              (map (\<lambda>t. t + 1500) (arrivals evs))
        \<and> ((\<forall>t \<in> set (arrivals evs). t + 1500 \<le> later) \<longrightarrow>
             snd (mock_run initial_mock
                    (evs @ replicate (length (mock_timers (fst (mock_run initial_mock evs))))
                             (Mock_timer later)))
             = map mock_reply [0 ..< length (arrivals evs)]))"
proof (intro conjI impI)
  show "mock_on_message s now msg = (s\<lparr>mock_timers := mock_timers s @ [now + 1500]\<rparr>, [])"
    by (simp add: mock_on_message_def)
  show "mock_step s (Mock_timer now) = (s, [])"
    if "mock_timers s = due # rest \<and> now < due"
    using that by simp
  show "mock_step s (Mock_timer now)
          = (s\<lparr>mock_timers := rest, mockIndex := mockIndex s + 1\<rparr>,
             [mock_reply (mockIndex s)])"
    if "mock_timers s = due # rest \<and> due \<le> now \<and> mock_open s"
    using that by (simp add: mock_timeout_def)
  show "mock_reply k = Transcript_only (MOCK_TRANSCRIPTS ! (k mod 4))"
    by (simp add: mock_reply_def mock_transcripts_length)
  show "mock_reply k \<noteq> mock_reply (Suc k)"
    by (rule mock_reply_successive_differ)
next
  assume "Mock_close \<notin> set evs"
  then show "snd (mock_run initial_mock evs)
          = map mock_reply [0 ..< mockIndex (fst (mock_run initial_mock evs))]"
    and "mockIndex (fst (mock_run initial_mock evs)) \<le> length (arrivals evs)"
    and "mock_timers (fst (mock_run initial_mock evs))
          = drop (mockIndex (fst (mock_run initial_mock evs)))
              (map (\<lambda>t. t + 1500) (arrivals evs))"
    by (rule mock_run_from_initial)+
next
  assume "Mock_close \<notin> set evs" "\<forall>t \<in> set (arrivals evs). t + 1500 \<le> later"
  then show "snd (mock_run initial_mock
                    (evs @ replicate (length (mock_timers (fst (mock_run initial_mock evs))))
                             (Mock_timer later)))
             = map mock_reply [0 ..< length (arrivals evs)]"
    by (rule mock_all_answered)
qed

lemmas mock_eval = mock_on_message_def mock_timeout_def initial_mock_def mock_reply_def
  MOCK_TRANSCRIPTS_def

theorem mock_mode_answers_round_robin_witness:
  "snd (mock_run initial_mock
       [Mock_message 1000 [], Mock_message 1001 (replicate 5 (CHR ''x'')), Mock_timer 2500])
     = [Transcript_only MOCK_TRANSCRIPT_0]
   \<and> snd (mock_run initial_mock
       ([Mock_message 1000 [], Mock_message 1001 (replicate 5 (CHR ''x'')), Mock_timer 2500]
        @ [Mock_timer 2501]))
     = [Transcript_only MOCK_TRANSCRIPT_0, Transcript_only MOCK_TRANSCRIPT_1]
   \<and> Transcript_only MOCK_TRANSCRIPT_0 \<noteq> Transcript_only MOCK_TRANSCRIPT_1
   \<and> mock_step \<lparr>mockIndex = 1, mock_timers = [2501], mock_open = True\<rparr> (Mock_timer 2500)
     = (\<lparr>mockIndex = 1, mock_timers = [2501], mock_open = True\<rparr>, [])
   \<and> mock_step \<lparr>mockIndex = 1, mock_timers = [2501], mock_open = True\<rparr> (Mock_timer 2501)
     = (\<lparr>mockIndex = 2, mock_timers = [], mock_open = True\<rparr>,
        [Transcript_only MOCK_TRANSCRIPT_1])"
proof -
  let ?evs = "[Mock_message 1000 [], Mock_message 1001 (replicate 5 (CHR ''x'')),
      Mock_timer 2500]"
  have run3: "fst (mock_run initial_mock ?evs)
      = \<lparr>mockIndex = 1, mock_timers = [2501], mock_open = True\<rparr>"
    by (simp add: mock_eval)
  have r0: "mock_reply 0 = Transcript_only MOCK_TRANSCRIPT_0"
    and r1: "mock_reply (Suc 0) = Transcript_only MOCK_TRANSCRIPT_1"
    by (simp_all add: mock_reply_def MOCK_TRANSCRIPTS_def)
  have open_all: "Mock_close \<notin> set ?evs"
    by simp
  have due: "\<forall>t \<in> set (arrivals ?evs). t + 1500 \<le> 2501"
    by simp
  note T = mock_mode_answers_round_robin [where evs = ?evs and later = 2501 and k = 0]
  note R = T [THEN conjunct2, THEN conjunct2, THEN conjunct2, THEN conjunct2,
      THEN conjunct2, THEN mp, OF open_all]
  let ?p = "\<lparr>mockIndex = 1, mock_timers = [2501], mock_open = True\<rparr>"
  have early: "mock_timers ?p = 2501 # [] \<and> (2500::int) < 2501"
    and late: "mock_timers ?p = 2501 # [] \<and> (2501::int) \<le> 2501 \<and> mock_open ?p"
    by simp_all
  note S = mock_mode_answers_round_robin [where s = ?p and due = 2501 and rest = "[]"]
  have d: "mock_step ?p (Mock_timer 2500) = (?p, [])"
    by (rule S [where now = 2500, THEN conjunct2, THEN conjunct2, THEN conjunct2,
          THEN conjunct1, THEN mp, OF early])
  have e: "mock_step ?p (Mock_timer 2501)
      = (\<lparr>mockIndex = 2, mock_timers = [], mock_open = True\<rparr>,
         [Transcript_only MOCK_TRANSCRIPT_1])"
    using S [where now = 2501, THEN conjunct2, THEN conjunct2, THEN conjunct2,
          THEN conjunct2, THEN conjunct1, THEN mp, OF late]
    by (simp add: r1 del: mock_step.simps)
  have a: "snd (mock_run initial_mock ?evs) = [Transcript_only MOCK_TRANSCRIPT_0]"
    using R [THEN conjunct1] unfolding run3 by (simp add: r0 del: mock_run.simps)
  have b: "snd (mock_run initial_mock (?evs @ [Mock_timer 2501]))
      = [Transcript_only MOCK_TRANSCRIPT_0, Transcript_only MOCK_TRANSCRIPT_1]"
    using R [THEN conjunct2, THEN conjunct2, THEN conjunct2, THEN mp, OF due]
    unfolding run3
    by (simp add: r0 r1 upt_rec del: mock_run.simps append_Cons)
  have c: "Transcript_only MOCK_TRANSCRIPT_0 \<noteq> Transcript_only MOCK_TRANSCRIPT_1"
    using T [THEN conjunct2, THEN conjunct2, THEN conjunct1] by (simp add: r0 r1)
  from a b c d e show ?thesis by (intro conjI)
qed

end
